theory Spec2Isabelle
  imports Main
begin

section \<open>JavaScript values used by the text range module\<close>

text \<open>
  Strings are modelled as HOL strings: one \<^typ>\<open>char\<close> per code unit, restricted to the
  code units 0 to 255.  The character classes of the module's regular expressions are
  written as predicates on one code unit, restricted to that range.
\<close>

definition code :: "char \<Rightarrow> nat" where
  "code c = of_char c"

text \<open>\<^verbatim>\<open>String.prototype.charAt\<close>: the empty string outside the string.\<close>

definition charAt :: "string \<Rightarrow> nat \<Rightarrow> string" where
  "charAt s i = (if i < length s then [s ! i] else [])"

text \<open>\<^verbatim>\<open>Array.prototype.slice(start, end)\<close> for non-negative indexes.\<close>

definition slice :: "'a list \<Rightarrow> nat \<Rightarrow> nat \<Rightarrow> 'a list" where
  "slice xs s e = take (e - s) (drop s xs)"

text \<open>A regular expression of the shape \<^verbatim>\<open>/^[class]+$/\<close>, tested on a string.\<close>

definition testAll :: "(char \<Rightarrow> bool) \<Rightarrow> string \<Rightarrow> bool" where
  "testAll P s = (s \<noteq> [] \<and> list_all P s)"

text \<open>\<^verbatim>\<open>spacesRegex = /^[ \t\f\r\n]+$/\<close>\<close>

definition spaceChar :: "char \<Rightarrow> bool" where
  "spaceChar c = (code c = 32 \<or> code c = 9 \<or> code c = 12 \<or> code c = 13 \<or> code c = 10)"

definition spacesRegex :: "string \<Rightarrow> bool" where
  "spacesRegex = testAll spaceChar"

text \<open>\<^verbatim>\<open>spacesMinusLineBreaksRegex = /^[ \t\f\r]+$/\<close>\<close>

definition spaceMinusLineBreakChar :: "char \<Rightarrow> bool" where
  "spaceMinusLineBreakChar c = (code c = 32 \<or> code c = 9 \<or> code c = 12 \<or> code c = 13)"

definition spacesMinusLineBreaksRegex :: "string \<Rightarrow> bool" where
  "spacesMinusLineBreaksRegex = testAll spaceMinusLineBreakChar"

text \<open>
  \<^verbatim>\<open>allWhiteSpaceRegex = /^[\t-\r \u0085\u00A0...]+$/\<close> and
  \<^verbatim>\<open>nonLineBreakWhiteSpaceRegex = /^[\t \u00A0...]+$/\<close>, on code units up to 255.
\<close>

definition whiteSpaceChar :: "char \<Rightarrow> bool" where
  "whiteSpaceChar c = ((9 \<le> code c \<and> code c \<le> 13) \<or> code c = 32 \<or> code c = 133 \<or> code c = 160)"

definition allWhiteSpaceRegex :: "string \<Rightarrow> bool" where
  "allWhiteSpaceRegex = testAll whiteSpaceChar"

definition nonLineBreakWhiteSpaceChar :: "char \<Rightarrow> bool" where
  "nonLineBreakWhiteSpaceChar c = (code c = 9 \<or> code c = 32 \<or> code c = 160)"

definition nonLineBreakWhiteSpaceRegex :: "string \<Rightarrow> bool" where
  "nonLineBreakWhiteSpaceRegex = testAll nonLineBreakWhiteSpaceChar"

text \<open>\<^verbatim>\<open>String.prototype.toLowerCase\<close> on code units up to 255.\<close>

definition lowerChar :: "char \<Rightarrow> char" where
  "lowerChar c =
     (if (65 \<le> code c \<and> code c \<le> 90) \<or> (192 \<le> code c \<and> code c \<le> 222 \<and> code c \<noteq> 215)
      then char_of (code c + 32) else c)"

definition toLowerCase :: "string \<Rightarrow> string" where
  "toLowerCase s = map lowerChar s"

subsection \<open>Regular expression objects\<close>

text \<open>
  A regular expression object, as far as \<^verbatim>\<open>exec\<close> shows it: \<open>matchFrom s i\<close> is the
  leftmost match of the expression in \<open>s\<close> that starts at index \<open>i\<close> or later, as the pair
  of its index and its length; \<open>global\<close> is the \<^verbatim>\<open>g\<close> flag.  A call of \<^verbatim>\<open>exec\<close>
  on a global expression searches from \<^verbatim>\<open>lastIndex\<close> and moves \<^verbatim>\<open>lastIndex\<close>
  to the end of the match; without the flag it searches from 0 and leaves
  \<^verbatim>\<open>lastIndex\<close> alone.
\<close>

record regex =
  matchFrom :: "string \<Rightarrow> nat \<Rightarrow> (nat \<times> nat) option"
  global :: bool

definition regexExec :: "regex \<Rightarrow> string \<Rightarrow> nat \<Rightarrow> (nat \<times> nat) option" where
  "regexExec r s lastIndex = matchFrom r s (if global r then lastIndex else 0)"

text \<open>The index of the first character at or after \<open>i\<close> that satisfies \<open>P\<close>.\<close>

definition findFrom :: "(char \<Rightarrow> bool) \<Rightarrow> string \<Rightarrow> nat \<Rightarrow> nat option" where
  "findFrom P s i =
     (let k = length (takeWhile (\<lambda>c. \<not> P c) (drop i s))
      in if i + k < length s then Some (i + k) else None)"

text \<open>
  The default word expression \<^verbatim>\<open>/[a-z0-9]+('[a-z0-9]+)*/gi\<close>.  A match starts at
  the first letter or digit; it takes letters and digits greedily, and an apostrophe
  whenever a letter or digit follows it.
\<close>

definition alnumChar :: "char \<Rightarrow> bool" where
  "alnumChar c = ((97 \<le> code c \<and> code c \<le> 122) \<or> (65 \<le> code c \<and> code c \<le> 90)
                  \<or> (48 \<le> code c \<and> code c \<le> 57))"

fun wordLength :: "string \<Rightarrow> nat" where
  "wordLength [] = 0"
| "wordLength (c # cs) =
     (if alnumChar c then Suc (wordLength cs)
      else if code c = 39 \<and> (case cs of [] \<Rightarrow> False | d # _ \<Rightarrow> alnumChar d)
      then Suc (wordLength cs)
      else 0)"

definition defaultWordMatch :: "string \<Rightarrow> nat \<Rightarrow> (nat \<times> nat) option" where
  "defaultWordMatch s i =
     (case findFrom alnumChar s i of
        None \<Rightarrow> None
      | Some k \<Rightarrow> Some (k, wordLength (drop k s)))"

definition defaultWordRegex :: regex where
  "defaultWordRegex = \<lparr> matchFrom = defaultWordMatch, global = True \<rparr>"

text \<open>
  The expression \<^verbatim>\<open>/\s*[a-z0-9]+/gi\<close>, a word together with the white space before it:
  an expression a caller can pass as \<^verbatim>\<open>wordOptions.wordRegex\<close>.  The leftmost match
  starts at the white space that runs up to the first letter or digit.
\<close>

definition regexSpaceChar :: "char \<Rightarrow> bool" where
  "regexSpaceChar c = ((9 \<le> code c \<and> code c \<le> 13) \<or> code c = 32 \<or> code c = 160)"

definition spacedWordMatch :: "string \<Rightarrow> nat \<Rightarrow> (nat \<times> nat) option" where
  "spacedWordMatch s i =
     (case findFrom alnumChar s i of
        None \<Rightarrow> None
      | Some k \<Rightarrow>
          (let b = length (takeWhile regexSpaceChar (rev (take (k - i) (drop i s))))
           in Some (k - b, b + length (takeWhile alnumChar (drop k s)))))"

definition spacedWordRegex :: regex where
  "spacedWordRegex = \<lparr> matchFrom = spacedWordMatch, global = True \<rparr>"

section \<open>Positions and characters\<close>

text \<open>
  A node is named by its path from the root of the document: the child indexes on the way
  down.  A \<^verbatim>\<open>DomPosition\<close> holds a node (or \<^verbatim>\<open>null\<close>) and an offset.
\<close>

type_synonym path = "nat list"

datatype DomPosition = DomPosition (node: "path option") (offset: nat)

datatype TextPosition =
  TextPosition (character: string) (position: DomPosition) (isLeadingSpace: bool)
    (isTrailingSpace: bool) (isBr: bool) (collapsible: bool)

section \<open>The default tokenizer\<close>

record wordOptions =
  wordRegex :: regex
  includeTrailingSpace :: bool

definition defaultWordOptions :: wordOptions where
  "defaultWordOptions = \<lparr> wordRegex = defaultWordRegex, includeTrailingSpace = False \<rparr>"

text \<open>
  One call of \<^verbatim>\<open>createTokenFromRange(start, end, isWord)\<close>, and the token it pushes:
  the slice of the characters between the two indexes.
\<close>

datatype tokenRange = TokenRange (rangeStart: nat) (rangeEnd: nat) (rangeIsWord: bool)

record token =
  isWord :: bool
  chars :: "TextPosition list"

definition createTokenFromRange :: "TextPosition list \<Rightarrow> tokenRange \<Rightarrow> token" where
  "createTokenFromRange cs r =
     \<lparr> isWord = rangeIsWord r, chars = slice cs (rangeStart r) (rangeEnd r) \<rparr>"

text \<open>
  \<^verbatim>\<open>while (nonLineBreakWhiteSpaceRegex.test(chars[wordEnd])) ++wordEnd\<close>: the test
  converts the character object to its string, and \<^verbatim>\<open>undefined\<close> past the end.
\<close>

definition trailingSpaceEnd :: "TextPosition list \<Rightarrow> nat \<Rightarrow> nat" where
  "trailingSpaceEnd cs wordEnd =
     wordEnd + length (takeWhile (\<lambda>c. nonLineBreakWhiteSpaceRegex (character c)) (drop wordEnd cs))"

text \<open>
  The loop \<^verbatim>\<open>while ( (result = wordOptions.wordRegex.exec(word)) )\<close>.  Its state is the
  expression's \<^verbatim>\<open>lastIndex\<close>, \<^verbatim>\<open>lastWordEnd\<close> and the calls of
  \<^verbatim>\<open>createTokenFromRange\<close> so far.  When a match leaves \<^verbatim>\<open>lastIndex\<close> where it
  was (an empty match, or an expression without the \<^verbatim>\<open>g\<close> flag), \<^verbatim>\<open>exec\<close>
  returns the same match for ever: the loop does not end, and the result is \<open>None\<close>.
\<close>

function tokenLoop ::
  "wordOptions \<Rightarrow> TextPosition list \<Rightarrow> string \<Rightarrow> nat \<Rightarrow> nat \<Rightarrow> tokenRange list
     \<Rightarrow> (tokenRange list \<times> nat) option" where
  "tokenLoop wo cs word lastIndex lastWordEnd acc =
     (case regexExec (wordRegex wo) word lastIndex of
        None \<Rightarrow> Some (acc, lastWordEnd)
      | Some (wordStart, len) \<Rightarrow>
          (let wordEnd0 = wordStart + len;
               acc1 = (if wordStart > lastWordEnd
                       then acc @ [TokenRange lastWordEnd wordStart False] else acc);
               wordEnd = (if includeTrailingSpace wo then trailingSpaceEnd cs wordEnd0
                          else wordEnd0);
               acc2 = acc1 @ [TokenRange wordStart wordEnd True];
               lastIndex' = (if global (wordRegex wo) then wordEnd0 else lastIndex)
           in if lastIndex < lastIndex' \<and> lastIndex' \<le> length word
              then tokenLoop wo cs word lastIndex' wordEnd acc2
              else None))"
  by pat_completeness auto
termination
  by (relation "measure (\<lambda>(wo, cs, word, lastIndex, lastWordEnd, acc). length word - lastIndex)")
     (auto split: if_splits)

definition tokenRanges :: "TextPosition list \<Rightarrow> wordOptions \<Rightarrow> tokenRange list option" where
  "tokenRanges cs wo =
     (let word = concat (map character cs)
      in case tokenLoop wo cs word 0 0 [] of
           None \<Rightarrow> None
         | Some (acc, lastWordEnd) \<Rightarrow>
             Some (if lastWordEnd < length cs
                   then acc @ [TokenRange lastWordEnd (length cs) False] else acc))"

definition defaultTokenizer :: "TextPosition list \<Rightarrow> wordOptions \<Rightarrow> token list option" where
  "defaultTokenizer cs wo = map_option (map (createTokenFromRange cs)) (tokenRanges cs wo)"

text \<open>
  Token ranges tile the interval from \<open>a\<close> to \<open>b\<close>: each range is non-empty and starts
  where the one before it ended.
\<close>

fun tiles :: "tokenRange list \<Rightarrow> nat \<Rightarrow> nat \<Rightarrow> bool" where
  "tiles [] a b = (a = b)"
| "tiles (r # rs) a b = (rangeStart r = a \<and> a < rangeEnd r \<and> tiles rs (rangeEnd r) b)"

text \<open>The characters of a string as the character iterator delivers them, one per position.\<close>

definition exampleChars :: "string \<Rightarrow> TextPosition list" where
  "exampleChars s =
     map (\<lambda>i. TextPosition [s ! i] (DomPosition (Some [0]) (Suc i)) False False False False)
       [0..<length s]"

section \<open>The document\<close>

text \<open>
  The host's document tree and the style oracle.  An element carries its tag name and the
  computed values the oracle reports for it (\<^verbatim>\<open>display\<close>, \<^verbatim>\<open>white-space\<close>,
  \<^verbatim>\<open>visibility\<close>).  All elements are HTML elements.
\<close>

datatype style = Style (display: string) (whiteSpace: string) (visibility: string)

datatype dnode =
    Element string style "dnode list"
  | Text string
  | ProcessingInstruction string string
  | Comment string
  | Document "dnode list"
  | DocumentFragment "dnode list"

fun nodeType :: "dnode \<Rightarrow> nat" where
  "nodeType (Element t s cs) = 1"
| "nodeType (Text d) = 3"
| "nodeType (ProcessingInstruction t d) = 7"
| "nodeType (Comment d) = 8"
| "nodeType (Document cs) = 9"
| "nodeType (DocumentFragment cs) = 11"

fun childNodes :: "dnode \<Rightarrow> dnode list" where
  "childNodes (Element t s cs) = cs"
| "childNodes (Document cs) = cs"
| "childNodes (DocumentFragment cs) = cs"
| "childNodes n = []"

fun nodeName :: "dnode \<Rightarrow> string" where
  "nodeName (Element t s cs) = t"
| "nodeName (Text d) = ''#text''"
| "nodeName (ProcessingInstruction t d) = t"
| "nodeName (Comment d) = ''#comment''"
| "nodeName (Document cs) = ''#document''"
| "nodeName (DocumentFragment cs) = ''#document-fragment''"

text \<open>\<^verbatim>\<open>node.data\<close>, \<^verbatim>\<open>undefined\<close> for a node that is not character data.\<close>

fun nodeData :: "dnode \<Rightarrow> string option" where
  "nodeData (Text d) = Some d"
| "nodeData (ProcessingInstruction t d) = Some d"
| "nodeData (Comment d) = Some d"
| "nodeData n = None"

text \<open>
  What a call can raise: a \<^verbatim>\<open>TypeError\<close> of the engine (a property of \<^verbatim>\<open>null\<close> or
  \<^verbatim>\<open>undefined\<close>, a style query on a node that is no element), an error the code throws
  itself, with its message, and a \<^verbatim>\<open>ReferenceError\<close> for a variable that is declared
  nowhere.  \<open>BadNode\<close> is a path that names no node of the document, and \<open>OutOfFuel\<close> a
  loop that did not end within the steps it was given: neither is a value of the program.
\<close>

datatype error = TypeError | Thrown string | ReferenceError | BadNode | OutOfFuel

definition bindE :: "error + 'a \<Rightarrow> ('a \<Rightarrow> error + 'b) \<Rightarrow> error + 'b" where
  "bindE m f = (case m of Inl e \<Rightarrow> Inl e | Inr x \<Rightarrow> f x)"

text \<open>\<open>a || b\<close> and \<open>a && b\<close> on calls that can raise: the second only when the first leaves it open.\<close>

definition orE :: "error + bool \<Rightarrow> error + bool \<Rightarrow> error + bool" where
  "orE a b = (case a of Inl e \<Rightarrow> Inl e | Inr x \<Rightarrow> if x then Inr True else b)"

definition andE :: "error + bool \<Rightarrow> error + bool \<Rightarrow> error + bool" where
  "andE a b = (case a of Inl e \<Rightarrow> Inl e | Inr x \<Rightarrow> if x then b else Inr False)"

text \<open>
  The environment of a call: the document, the flag \<^verbatim>\<open>tableCssDisplayBlock\<close> the module
  measures when it loads, and the number of steps every loop over the document may take.
\<close>

record env =
  doc :: dnode
  tableCssDisplayBlock :: bool
  fuel :: nat

fun getNode :: "dnode \<Rightarrow> path \<Rightarrow> dnode option" where
  "getNode n [] = Some n"
| "getNode n (i # p) =
     (if i < length (childNodes n) then getNode (childNodes n ! i) p else None)"

definition nodeAt :: "env \<Rightarrow> path \<Rightarrow> error + dnode" where
  "nodeAt e p = (case getNode (doc e) p of None \<Rightarrow> Inl BadNode | Some n \<Rightarrow> Inr n)"

definition parentNode :: "path \<Rightarrow> path option" where
  "parentNode p = (if p = [] then None else Some (butlast p))"

text \<open>
  Modelled from the spec: \<^verbatim>\<open>dom.getNodeIndex\<close>, \<^verbatim>\<open>dom.getNodeLength\<close> and
  \<^verbatim>\<open>dom.isCharacterDataNode\<close> of the core library.  The index of a node is its place
  among the children of its parent (0 for a node without siblings before it); the length
  is the data length for text nodes and the child count for non-text nodes; text and
  comment nodes are character data.
\<close>

definition getNodeIndex :: "path \<Rightarrow> nat" where
  "getNodeIndex p = (if p = [] then 0 else last p)"

fun getNodeLength :: "dnode \<Rightarrow> nat" where
  "getNodeLength (Text d) = length d"
| "getNodeLength n = length (childNodes n)"

definition isCharacterDataNode :: "dnode \<Rightarrow> bool" where
  "isCharacterDataNode n = (nodeType n = 3 \<or> nodeType n = 8)"

text \<open>
  The style oracle, \<^verbatim>\<open>getComputedStyleProperty(el, propName)\<close>: only an element has a
  computed style.
\<close>

fun getComputedStyleProperty :: "dnode \<Rightarrow> (style \<Rightarrow> string) \<Rightarrow> error + string" where
  "getComputedStyleProperty (Element t s cs) prop = Inr (prop s)"
| "getComputedStyleProperty n prop = Inl TypeError"

definition defaultDisplayValueForTag :: "(string \<times> string) list" where
  "defaultDisplayValueForTag =
     [(''table'', ''table''), (''caption'', ''table-caption''),
      (''colgroup'', ''table-column-group''), (''col'', ''table-column''),
      (''thead'', ''table-header-group''), (''tbody'', ''table-row-group''),
      (''tfoot'', ''table-footer-group''), (''tr'', ''table-row''),
      (''td'', ''table-cell''), (''th'', ''table-cell'')]"

text \<open>\<^verbatim>\<open>el.tagName\<close>: a \<^verbatim>\<open>TypeError\<close> follows when the node has none.\<close>

fun tagName :: "dnode \<Rightarrow> error + string" where
  "tagName (Element t s cs) = Inr t"
| "tagName n = Inl TypeError"

definition getComputedDisplay :: "env \<Rightarrow> dnode \<Rightarrow> error + string" where
  "getComputedDisplay e el =
     bindE (getComputedStyleProperty el display) (\<lambda>d.
     bindE (tagName el) (\<lambda>t.
       Inr (case map_of defaultDisplayValueForTag (toLowerCase t) of
              Some v \<Rightarrow> if d = ''block'' \<and> tableCssDisplayBlock e then v else d
            | None \<Rightarrow> d)))"

text \<open>A block node: \<^verbatim>\<open>/^(inline(-block|-table)?|none)$/\<close> does not match the display.\<close>

definition inlineOrNone :: "string \<Rightarrow> bool" where
  "inlineOrNone d = (d = ''inline'' \<or> d = ''inline-block'' \<or> d = ''inline-table'' \<or> d = ''none'')"

definition isBlockNode :: "env \<Rightarrow> path option \<Rightarrow> error + bool" where
  "isBlockNode e nd =
     (case nd of
        None \<Rightarrow> Inr False
      | Some p \<Rightarrow>
          bindE (nodeAt e p) (\<lambda>n.
            if nodeType n = 1
            then bindE (getComputedDisplay e n) (\<lambda>d. Inr (\<not> inlineOrNone d))
            else Inr (nodeType n = 9 \<or> nodeType n = 11)))"

text \<open>
  \<^verbatim>\<open>containsPositions\<close>:
  \<^verbatim>\<open>/^(area|base|basefont|br|col|frame|hr|img|input|isindex|link|meta|param)$/i\<close>
\<close>

definition voidTags :: "string list" where
  "voidTags = [''area'', ''base'', ''basefont'', ''br'', ''col'', ''frame'', ''hr'', ''img'',
               ''input'', ''isindex'', ''link'', ''meta'', ''param'']"

definition containsPositions :: "dnode \<Rightarrow> bool" where
  "containsPositions n = (isCharacterDataNode n \<or> toLowerCase (nodeName n) \<notin> set voidTags)"

definition getAncestors :: "path \<Rightarrow> path list" where
  "getAncestors p = map (\<lambda>k. take k p) [0..<length p]"

definition getAncestorsAndSelf :: "path \<Rightarrow> path list" where
  "getAncestorsAndSelf p = getAncestors p @ [p]"

text \<open>\<^verbatim>\<open>isHtmlElement(node, tagNames)\<close> with a string for \<^verbatim>\<open>tagNames\<close>.\<close>

definition isHtmlElement :: "env \<Rightarrow> path option \<Rightarrow> string \<Rightarrow> error + bool" where
  "isHtmlElement e nd tagNames =
     (case nd of
        None \<Rightarrow> Inr False
      | Some p \<Rightarrow>
          bindE (nodeAt e p) (\<lambda>n.
            if nodeType n \<noteq> 1 then Inr False
            else bindE (tagName n) (\<lambda>t. Inr (toLowerCase t = toLowerCase tagNames))))"

text \<open>\<^verbatim>\<open>nextNodeDescendants\<close>: the next sibling of the node or of its closest ancestor that has one.\<close>

function nextNodeDescendants :: "env \<Rightarrow> path option \<Rightarrow> error + path option" where
  "nextNodeDescendants e nd =
     (case nd of
        None \<Rightarrow> Inr None
      | Some p \<Rightarrow>
          if p = [] then bindE (nodeAt e p) (\<lambda>n. Inr None)
          else bindE (nodeAt e p) (\<lambda>n.
               bindE (nodeAt e (butlast p)) (\<lambda>parent.
                 if Suc (last p) < length (childNodes parent)
                 then Inr (Some (butlast p @ [Suc (last p)]))
                 else nextNodeDescendants e (Some (butlast p)))))"
  by pat_completeness auto
termination
  by (relation "measure (\<lambda>(e, nd). case nd of None \<Rightarrow> 0 | Some p \<Rightarrow> length p)") auto

definition nextNode :: "env \<Rightarrow> path option \<Rightarrow> error + path option" where
  "nextNode e nd =
     (case nd of
        None \<Rightarrow> Inl TypeError
      | Some p \<Rightarrow>
          bindE (nodeAt e p) (\<lambda>n.
            if childNodes n \<noteq> [] then Inr (Some (p @ [0]))
            else nextNodeDescendants e (Some p)))"

text \<open>\<^verbatim>\<open>while (node.hasChildNodes()) node = node.lastChild\<close>, from the node \<open>n\<close> at \<open>p\<close>.\<close>

function lastDescendant :: "dnode \<Rightarrow> path \<Rightarrow> path" where
  "lastDescendant n p =
     (if childNodes n = [] then p
      else lastDescendant (last (childNodes n)) (p @ [length (childNodes n) - 1]))"
  by pat_completeness auto
termination
proof (relation "measure (\<lambda>(n, p). size n)")
  show "wf (measure (\<lambda>(n, p). size n))" by simp
next
  fix n :: dnode and p :: path
  assume a: "childNodes n \<noteq> []"
  then have "last (childNodes n) \<in> set (childNodes n)" by simp
  then have "size (last (childNodes n)) < Suc (size_list size (childNodes n))"
    by (simp add: less_Suc_eq_le size_list_estimation')
  moreover have "Suc (size_list size (childNodes n)) \<le> size n" using a by (cases n) auto
  ultimately show "((last (childNodes n), p @ [length (childNodes n) - 1]), (n, p))
        \<in> measure (\<lambda>(n, p). size n)" by simp
qed

definition previousNode :: "env \<Rightarrow> path option \<Rightarrow> error + path option" where
  "previousNode e nd =
     (case nd of
        None \<Rightarrow> Inl TypeError
      | Some p \<Rightarrow>
          bindE (nodeAt e p) (\<lambda>n.
            if p \<noteq> [] \<and> 0 < last p
            then (let q = butlast p @ [last p - 1]
                  in bindE (nodeAt e q) (\<lambda>previous. Inr (Some (lastDescendant previous q))))
            else (case parentNode p of
                    None \<Rightarrow> Inr None
                  | Some parent \<Rightarrow>
                      bindE (nodeAt e parent) (\<lambda>pn.
                        Inr (if nodeType pn = 1 then Some parent else None)))))"


section \<open>Visibility and white space of nodes\<close>

text \<open>A loop that returns \<^verbatim>\<open>true\<close> at the first element on which the test holds.\<close>

fun existsE :: "('a \<Rightarrow> error + bool) \<Rightarrow> 'a list \<Rightarrow> error + bool" where
  "existsE g [] = Inr False"
| "existsE g (x # xs) = orE (g x) (existsE g xs)"

definition isHidden :: "env \<Rightarrow> path \<Rightarrow> error + bool" where
  "isHidden e p =
     existsE (\<lambda>a. bindE (nodeAt e a) (\<lambda>n.
                 if nodeType n = 1
                 then bindE (getComputedDisplay e n) (\<lambda>d. Inr (d = ''none''))
                 else Inr False))
       (getAncestorsAndSelf p)"

definition isVisibilityHiddenTextNode :: "env \<Rightarrow> path \<Rightarrow> error + bool" where
  "isVisibilityHiddenTextNode e p =
     bindE (nodeAt e p) (\<lambda>n.
       if nodeType n \<noteq> 3 then Inr False
       else (case parentNode p of
               None \<Rightarrow> Inr False
             | Some el \<Rightarrow>
                 bindE (nodeAt e el) (\<lambda>pn.
                 bindE (getComputedStyleProperty pn visibility) (\<lambda>v. Inr (v = ''hidden'')))))"

text \<open>\<^verbatim>\<open>/^[\t\n\r ]+$/\<close> and \<^verbatim>\<open>/^[\t\r ]+$/\<close>\<close>

definition tabLineSpaceChar :: "char \<Rightarrow> bool" where
  "tabLineSpaceChar c = (code c = 9 \<or> code c = 10 \<or> code c = 13 \<or> code c = 32)"

definition tabSpaceChar :: "char \<Rightarrow> bool" where
  "tabSpaceChar c = (code c = 9 \<or> code c = 13 \<or> code c = 32)"

definition isWhitespaceNode :: "env \<Rightarrow> path option \<Rightarrow> error + bool" where
  "isWhitespaceNode e nd =
     (case nd of
        None \<Rightarrow> Inr False
      | Some p \<Rightarrow>
          bindE (nodeAt e p) (\<lambda>n.
            (case n of
               Text d \<Rightarrow>
                 if d = [] then Inr True
                 else (case parentNode p of
                         None \<Rightarrow> Inr False
                       | Some parent \<Rightarrow>
                           bindE (nodeAt e parent) (\<lambda>pn.
                             if nodeType pn \<noteq> 1 then Inr False
                             else bindE (getComputedStyleProperty pn whiteSpace)
                                    (\<lambda>computedWhiteSpace.
                                       Inr ((testAll tabLineSpaceChar d
                                              \<and> (computedWhiteSpace = ''normal''
                                                   \<or> computedWhiteSpace = ''nowrap''))
                                            \<or> (testAll tabSpaceChar d
                                                 \<and> computedWhiteSpace = ''pre-line'')))))
             | _ \<Rightarrow> Inr False)))"

text \<open>
  \<^verbatim>\<open>while (!isBlockNode(ancestor) && ancestor.parentNode) ancestor = ancestor.parentNode\<close>
\<close>

function blockAncestor :: "env \<Rightarrow> path \<Rightarrow> error + path" where
  "blockAncestor e ancestor =
     bindE (isBlockNode e (Some ancestor)) (\<lambda>b.
       if \<not> b \<and> ancestor \<noteq> [] then blockAncestor e (butlast ancestor) else Inr ancestor)"
  by pat_completeness auto
termination
  by (relation "measure (\<lambda>(e, ancestor). length ancestor)") auto

text \<open>
  The two loops of \<^verbatim>\<open>isCollapsedWhitespaceNode\<close>, each from \<^verbatim>\<open>reference\<close> to the end
  of the loop: the result is \<open>True\<close> when the loop returns \<^verbatim>\<open>true\<close>, \<open>False\<close> when it
  ends or breaks.
\<close>

definition textNotWhitespace :: "env \<Rightarrow> path \<Rightarrow> error + bool" where
  "textNotWhitespace e p =
     bindE (nodeAt e p) (\<lambda>n.
       if nodeType n = 3 then bindE (isWhitespaceNode e (Some p)) (\<lambda>w. Inr (\<not> w))
       else Inr False)"

fun scanBackward :: "nat \<Rightarrow> env \<Rightarrow> path option \<Rightarrow> path \<Rightarrow> error + bool" where
  "scanBackward 0 e reference ancestor = Inl OutOfFuel"
| "scanBackward (Suc k) e reference ancestor =
     (if reference = Some ancestor then Inr False
      else bindE (previousNode e reference) (\<lambda>r.
           bindE (orE (isBlockNode e r) (isHtmlElement e r ''br'')) (\<lambda>b.
             if b then Inr True
             else (case r of
                     None \<Rightarrow> Inl TypeError
                   | Some rp \<Rightarrow>
                       bindE (orE (textNotWhitespace e rp) (isHtmlElement e r ''img'')) (\<lambda>c.
                         if c then Inr False else scanBackward k e r ancestor)))))"

fun scanForward :: "nat \<Rightarrow> env \<Rightarrow> path option \<Rightarrow> path option \<Rightarrow> error + bool" where
  "scanForward 0 e reference stop = Inl OutOfFuel"
| "scanForward (Suc k) e reference stop =
     (if reference = stop then Inr False
      else bindE (nextNode e reference) (\<lambda>r.
           bindE (orE (isBlockNode e r) (isHtmlElement e r ''br'')) (\<lambda>b.
             if b then Inr True
             else bindE (orE (case r of None \<Rightarrow> Inr False | Some rp \<Rightarrow> textNotWhitespace e rp)
                             (isHtmlElement e r ''img'')) (\<lambda>c.
                    if c then Inr False else scanForward k e r stop))))"

definition isCollapsedWhitespaceNode :: "env \<Rightarrow> path \<Rightarrow> error + bool" where
  "isCollapsedWhitespaceNode e p =
     bindE (nodeAt e p) (\<lambda>n.
       if nodeData n = Some [] then Inr True
       else bindE (isWhitespaceNode e (Some p)) (\<lambda>w.
         if \<not> w then Inr False
         else (case parentNode p of
                 None \<Rightarrow> Inr True
               | Some parent \<Rightarrow>
                   bindE (isHidden e p) (\<lambda>h.
                     if h then Inr True
                     else bindE (blockAncestor e parent) (\<lambda>ancestor.
                          bindE (scanBackward (fuel e) e (Some p) ancestor) (\<lambda>back.
                            if back then Inr True
                            else bindE (nextNodeDescendants e (Some ancestor)) (\<lambda>stop.
                                 bindE (scanForward (fuel e) e (Some p) stop) (\<lambda>forward.
                                   Inr forward))))))))"

text \<open>\<^verbatim>\<open>/^(script|style)$/i.test(node.nodeName)\<close>\<close>

definition scriptOrStyle :: "dnode \<Rightarrow> bool" where
  "scriptOrStyle n = (toLowerCase (nodeName n) = ''script'' \<or> toLowerCase (nodeName n) = ''style'')"

definition isCollapsedNode :: "env \<Rightarrow> path option \<Rightarrow> error + bool" where
  "isCollapsedNode e nd =
     (case nd of
        None \<Rightarrow> Inl TypeError
      | Some p \<Rightarrow>
          bindE (nodeAt e p) (\<lambda>n.
            if nodeType n = 7 \<or> nodeType n = 8 then Inr True
            else orE (isHidden e p)
                (orE (Inr (scriptOrStyle n))
                (orE (isVisibilityHiddenTextNode e p)
                     (isCollapsedWhitespaceNode e p)))))"

definition isIgnoredNode :: "env \<Rightarrow> dnode \<Rightarrow> error + bool" where
  "isIgnoredNode e n =
     (if nodeType n = 7 \<or> nodeType n = 8 then Inr True
      else if nodeType n = 1 then bindE (getComputedDisplay e n) (\<lambda>d. Inr (d = ''none''))
      else Inr False)"

fun hasInnerText :: "nat \<Rightarrow> env \<Rightarrow> path \<Rightarrow> error + bool" where
  "hasInnerText 0 e p = Inl OutOfFuel"
| "hasInnerText (Suc k) e p =
     bindE (isCollapsedNode e (Some p)) (\<lambda>c.
       if c then Inr False
       else bindE (nodeAt e p) (\<lambda>n.
              if nodeType n = 3 then Inr True
              else existsE (\<lambda>i. hasInnerText k e (p @ [i])) [0..<length (childNodes n)]))"

text \<open>
  The loop of \<^verbatim>\<open>getTrailingSpace\<close> over the children from the last one backwards: the
  index of the first child that is not ignored.
\<close>

fun lastNotIgnored :: "env \<Rightarrow> dnode list \<Rightarrow> error + nat option" where
  "lastNotIgnored e [] = Inr None"
| "lastNotIgnored e (c # cs) =
     bindE (lastNotIgnored e cs) (\<lambda>later.
       case later of
         Some i \<Rightarrow> Inr (Some (Suc i))
       | None \<Rightarrow> bindE (isIgnoredNode e c) (\<lambda>ig. Inr (if ig then None else Some 0)))"

fun getTrailingSpace :: "nat \<Rightarrow> env \<Rightarrow> path \<Rightarrow> error + string" where
  "getTrailingSpace 0 e p = Inl OutOfFuel"
| "getTrailingSpace (Suc k) e p =
     bindE (nodeAt e p) (\<lambda>el.
     bindE (tagName el) (\<lambda>t.
       if toLowerCase t = ''br'' then Inr []
       else bindE (getComputedDisplay e el) (\<lambda>d.
         if d = ''inline''
         then bindE (lastNotIgnored e (childNodes el)) (\<lambda>found.
                case found of
                  None \<Rightarrow> Inr []
                | Some i \<Rightarrow>
                    if nodeType (childNodes el ! i) = 1 then getTrailingSpace k e (p @ [i])
                    else Inr [])
         else if d = ''inline-block'' \<or> d = ''inline-table'' \<or> d = ''none''
                 \<or> d = ''table-column'' \<or> d = ''table-column-group''
         then Inr []
         else if d = ''table-cell'' then Inr [CHR 0x09]
         else bindE (hasInnerText (fuel e) e p) (\<lambda>h. Inr (if h then [CHR 0x0A] else [])))))"

definition getLeadingSpace :: "env \<Rightarrow> path \<Rightarrow> error + string" where
  "getLeadingSpace e p =
     bindE (nodeAt e p) (\<lambda>el.
     bindE (getComputedDisplay e el) (\<lambda>d.
       if d = ''inline'' \<or> d = ''inline-block'' \<or> d = ''inline-table'' \<or> d = ''none''
          \<or> d = ''table-column'' \<or> d = ''table-column-group'' \<or> d = ''table-cell''
       then Inr []
       else bindE (hasInnerText (fuel e) e p) (\<lambda>h. Inr (if h then [CHR 0x0A] else []))))"


section \<open>Moving between positions\<close>

definition nextPosition :: "env \<Rightarrow> DomPosition \<Rightarrow> error + DomPosition option" where
  "nextPosition e pos =
     (case node pos of
        None \<Rightarrow> Inr None
      | Some p \<Rightarrow>
          bindE (nodeAt e p) (\<lambda>n.
            if offset pos = getNodeLength n
            then (case parentNode p of
                    None \<Rightarrow> Inr None
                  | Some parent \<Rightarrow> Inr (Some (DomPosition (Some parent) (getNodeIndex p + 1))))
            else if isCharacterDataNode n
            then Inr (Some (DomPosition (Some p) (offset pos + 1)))
            else if offset pos < length (childNodes n)
            then (if containsPositions (childNodes n ! offset pos)
                  then Inr (Some (DomPosition (Some (p @ [offset pos])) 0))
                  else Inr (Some (DomPosition (Some p) (offset pos + 1))))
            else Inl TypeError))"

definition previousPosition :: "env \<Rightarrow> DomPosition option \<Rightarrow> error + DomPosition option" where
  "previousPosition e posOpt =
     (case posOpt of
        None \<Rightarrow> Inr None
      | Some pos \<Rightarrow>
          (case node pos of
             None \<Rightarrow> Inl TypeError
           | Some p \<Rightarrow>
               bindE (nodeAt e p) (\<lambda>n.
                 if offset pos = 0
                 then (case parentNode p of
                         None \<Rightarrow> Inr None
                       | Some parent \<Rightarrow> Inr (Some (DomPosition (Some parent) (getNodeIndex p))))
                 else if isCharacterDataNode n
                 then Inr (Some (DomPosition (Some p) (offset pos - 1)))
                 else if offset pos - 1 < length (childNodes n)
                 then (let child = childNodes n ! (offset pos - 1)
                       in if containsPositions child
                          then Inr (Some (DomPosition (Some (p @ [offset pos - 1]))
                                            (getNodeLength child)))
                          else Inr (Some (DomPosition (Some p) (offset pos - 1))))
                 else Inl TypeError)))"

definition nextVisiblePosition :: "env \<Rightarrow> DomPosition \<Rightarrow> error + DomPosition option" where
  "nextVisiblePosition e pos =
     bindE (nextPosition e pos) (\<lambda>next.
       case next of
         None \<Rightarrow> Inr None
       | Some nextPos \<Rightarrow>
           bindE (isCollapsedNode e (node nextPos)) (\<lambda>c.
             if c
             then (case node nextPos of
                     None \<Rightarrow> Inl TypeError
                   | Some p \<Rightarrow> Inr (Some (DomPosition (parentNode p) (getNodeIndex p + 1))))
             else Inr (Some nextPos)))"

definition previousVisiblePosition :: "env \<Rightarrow> DomPosition option \<Rightarrow> error + DomPosition option" where
  "previousVisiblePosition e pos =
     bindE (previousPosition e pos) (\<lambda>previous.
       case previous of
         None \<Rightarrow> Inr None
       | Some previousPos \<Rightarrow>
           bindE (isCollapsedNode e (node previousPos)) (\<lambda>c.
             if c
             then (case node previousPos of
                     None \<Rightarrow> Inl TypeError
                   | Some p \<Rightarrow> Inr (Some (DomPosition (parentNode p) (getNodeIndex p))))
             else Inr (Some previousPos)))"

section \<open>The character at a position\<close>

text \<open>
  The flags the module sets when it loads: the feature tests are commented out, so both
  are \<^verbatim>\<open>true\<close>.
\<close>

definition trailingSpaceInBlockCollapses :: bool where
  "trailingSpaceInBlockCollapses = True"

definition trailingSpaceBeforeBrCollapses :: bool where
  "trailingSpaceBeforeBrCollapses = True"

record characterOptions =
  collapseSpaceBeforeLineBreak :: bool

definition defaultCharacterOptions :: characterOptions where
  "defaultCharacterOptions = \<lparr> collapseSpaceBeforeLineBreak = True \<rparr>"

definition collapsesPrecedingSpace :: "TextPosition \<Rightarrow> bool" where
  "collapsesPrecedingSpace tp =
     (character tp = [CHR 0x0A]
      \<and> ((isBr tp \<and> trailingSpaceBeforeBrCollapses)
           \<or> (isTrailingSpace tp \<and> trailingSpaceInBlockCollapses)))"

text \<open>
  \<^verbatim>\<open>getTextNodeProperties\<close>: the expression for collapsible spaces of the text node
  (\<^verbatim>\<open>null\<close> when spaces do not collapse) and the flag \<^verbatim>\<open>preLine\<close>.
\<close>

datatype nodeInfo = NodeInfo (spaceRegex: "(string \<Rightarrow> bool) option") (collapseSpaces: bool) (preLine: bool)

definition getTextNodeProperties :: "env \<Rightarrow> path \<Rightarrow> error + nodeInfo" where
  "getTextNodeProperties e p =
     (case parentNode p of
        None \<Rightarrow> Inl TypeError
      | Some parent \<Rightarrow>
          bindE (nodeAt e parent) (\<lambda>pn.
          bindE (getComputedStyleProperty pn whiteSpace) (\<lambda>cssWhitespace.
            if cssWhitespace = ''pre-line''
            then Inr (NodeInfo (Some spacesMinusLineBreaksRegex) True True)
            else if cssWhitespace = ''normal'' \<or> cssWhitespace = ''nowrap''
            then Inr (NodeInfo (Some spacesRegex) True False)
            else Inr (NodeInfo None False False))))"

text \<open>
  \<^verbatim>\<open>getPossibleCharacterAt(pos, transaction, options)\<close>.  Both callers pass two arguments,
  so \<^verbatim>\<open>options\<close> is \<^verbatim>\<open>undefined\<close>: reading \<^verbatim>\<open>options.collapseSpaces\<close> raises a
  \<^verbatim>\<open>TypeError\<close>, and the code reads it for a collapsible space of a
  \<^verbatim>\<open>pre-line\<close> text that has no collapsible space before it and a line feed after it.
  The transaction only caches the text node's properties.
\<close>

definition possibleTextCharacter :: "env \<Rightarrow> path \<Rightarrow> string \<Rightarrow> nat \<Rightarrow> error + (string \<times> bool)" where
  "possibleTextCharacter e p txt off =
     (let textChar = charAt txt (off - 1)
      in bindE (getTextNodeProperties e p) (\<lambda>info.
           if collapseSpaces info
           then (case spaceRegex info of
                   None \<Rightarrow> Inl TypeError
                 | Some re \<Rightarrow>
                     if re textChar
                     then (if off > 1 \<and> re (charAt txt (off - 2)) then Inr ([], True)
                           else if preLine info \<and> charAt txt off = [CHR 0x0A]
                                   \<and> trailingSpaceBeforeBrCollapses
                           then Inl TypeError
                           else Inr ('' '', True))
                     else Inr (textChar, False))
           else Inr (textChar, False)))"

definition getPossibleCharacterAt :: "env \<Rightarrow> DomPosition \<Rightarrow> error + TextPosition" where
  "getPossibleCharacterAt e pos =
     (case node pos of
        None \<Rightarrow> Inl TypeError
      | Some p \<Rightarrow>
          bindE (nodeAt e p) (\<lambda>n.
            if offset pos > 0
            then (case n of
                    Text txt \<Rightarrow>
                      bindE (possibleTextCharacter e p txt (offset pos)) (\<lambda>(visibleChar, coll).
                        Inr (TextPosition visibleChar pos False False False coll))
                  | _ \<Rightarrow>
                      bindE
                        (if offset pos - 1 < length (childNodes n)
                            \<and> nodeType (childNodes n ! (offset pos - 1)) = 1
                         then bindE (isCollapsedNode e (Some (p @ [offset pos - 1]))) (\<lambda>c.
                                if c then Inr ([], False, False)
                                else bindE (tagName (childNodes n ! (offset pos - 1))) (\<lambda>t.
                                       if toLowerCase t = ''br'' then Inr ([CHR 0x0A], True, False)
                                       else bindE (getTrailingSpace (fuel e) e (p @ [offset pos - 1]))
                                              (\<lambda>sp. Inr (sp, False, sp \<noteq> []))))
                         else Inr ([], False, False))
                        (\<lambda>(visibleChar, br, trailing).
                           if visibleChar = []
                           then bindE
                                  (if offset pos < length (childNodes n)
                                      \<and> nodeType (childNodes n ! offset pos) = 1
                                   then bindE (isCollapsedNode e (Some (p @ [offset pos]))) (\<lambda>c.
                                          if c then Inr []
                                          else getLeadingSpace e (p @ [offset pos]))
                                   else Inr [])
                                  (\<lambda>leading.
                                     Inr (TextPosition leading pos (leading \<noteq> []) trailing br
                                            trailing))
                           else Inr (TextPosition visibleChar pos False trailing br trailing)))
            else Inr (TextPosition [] pos False False False False)))"


text \<open>\<^verbatim>\<open>getNextPossibleCharacter\<close>: the next position whose possible character is not empty.\<close>

fun getNextPossibleCharacter :: "nat \<Rightarrow> env \<Rightarrow> DomPosition \<Rightarrow> error + TextPosition option" where
  "getNextPossibleCharacter 0 e pos = Inl OutOfFuel"
| "getNextPossibleCharacter (Suc k) e pos =
     bindE (nextVisiblePosition e pos) (\<lambda>np.
       case np of
         None \<Rightarrow> Inr None
       | Some nextPos \<Rightarrow>
           bindE (getPossibleCharacterAt e nextPos) (\<lambda>next.
             if character next \<noteq> [] then Inr (Some next)
             else getNextPossibleCharacter k e nextPos))"

text \<open>
  The loop of \<^verbatim>\<open>getCharacterAt\<close> that works backwards until it has a character that is
  neither a space nor a line feed; \<^verbatim>\<open>unshift\<close> puts each character found in front.
\<close>

fun precedingCharacters ::
  "nat \<Rightarrow> env \<Rightarrow> DomPosition \<Rightarrow> TextPosition list \<Rightarrow> error + TextPosition list" where
  "precedingCharacters 0 e previousPos precedingChars = Inl OutOfFuel"
| "precedingCharacters (Suc k) e previousPos precedingChars =
     bindE (previousVisiblePosition e (Some previousPos)) (\<lambda>pp.
       case pp of
         None \<Rightarrow> Inr precedingChars
       | Some pos \<Rightarrow>
           bindE (getPossibleCharacterAt e pos) (\<lambda>previous.
             if character previous \<noteq> []
             then (if character previous \<noteq> '' '' \<and> character previous \<noteq> [CHR 0x0A]
                   then Inr (previous # precedingChars)
                   else precedingCharacters k e pos (previous # precedingChars))
             else precedingCharacters k e pos precedingChars))"

definition setCharacter :: "TextPosition \<Rightarrow> string \<Rightarrow> TextPosition" where
  "setCharacter tp c =
     TextPosition c (position tp) (isLeadingSpace tp) (isTrailingSpace tp) (isBr tp) (collapsible tp)"

definition getCharacterAt :: "env \<Rightarrow> DomPosition \<Rightarrow> characterOptions \<Rightarrow> error + TextPosition" where
  "getCharacterAt e pos options =
     bindE (getPossibleCharacterAt e pos) (\<lambda>possible.
       let possibleChar = character possible
       in if possibleChar \<noteq> [] \<and> spacesRegex possibleChar
          then bindE (precedingCharacters (fuel e) e pos []) (\<lambda>precedingChars.
                 let preceding = (if precedingChars = [] then None else Some (last precedingChars))
                 in if possibleChar = '' '' \<and> collapsible possible
                       \<and> (case preceding of
                             None \<Rightarrow> True
                           | Some pr \<Rightarrow> isTrailingSpace pr \<or> character pr = [CHR 0x0A])
                    then Inr (setCharacter possible [])
                    else if collapsible possible
                    then bindE (getNextPossibleCharacter (fuel e) e pos) (\<lambda>next.
                           if (case next of
                                 None \<Rightarrow> True
                               | Some nx \<Rightarrow> character nx = [CHR 0x0A]
                                              \<and> collapseSpaceBeforeLineBreak options
                                              \<and> collapsesPrecedingSpace nx)
                           then Inr (setCharacter possible [])
                           else Inr possible)
                    else if possibleChar = [CHR 0x0A]
                    then bindE (getNextPossibleCharacter (fuel e) e pos) (\<lambda>next.
                           if (case next of None \<Rightarrow> True | Some nx \<Rightarrow> isTrailingSpace nx)
                           then Inr (setCharacter possible [])
                           else Inr possible)
                    else Inr possible)
          else Inr possible)"

section \<open>The character iterator\<close>

text \<open>
  The state of one iterator: the variables its closures share.  \<open>itPos\<close>, \<open>itFinished\<close>
  belong to the inner \<^verbatim>\<open>next\<close>, \<open>previousTextPos\<close> and \<open>returnPreviousTextPos\<close> to the
  object returned.
\<close>

text \<open>
  \<^verbatim>\<open>createCharacterIterator\<close> asks for the window of the start position's node first, which
  a position without a node cannot give.
\<close>

record charIterator =
  itPos :: "DomPosition option"
  itBackward :: bool
  itEndPos :: "DomPosition option"
  itOptions :: characterOptions
  itFinished :: bool
  previousTextPos :: "TextPosition option"
  returnPreviousTextPos :: bool

definition createCharacterIterator ::
  "env \<Rightarrow> DomPosition \<Rightarrow> bool \<Rightarrow> DomPosition option \<Rightarrow> characterOptions \<Rightarrow> error + charIterator" where
  "createCharacterIterator e startPos backward endPos options =
     bindE (case node startPos of
              None \<Rightarrow> Inl TypeError
            | Some p \<Rightarrow>
                (case endPos of
                   None \<Rightarrow> Inr None
                 | Some ep \<Rightarrow>
                     bindE (isCollapsedNode e (node ep)) (\<lambda>c.
                       if c then (if backward then previousVisiblePosition e (Some ep)
                                  else nextVisiblePosition e ep)
                       else Inr (Some ep))))
       (\<lambda>endPos'.
          Inr \<lparr> itPos = Some startPos, itBackward = backward, itEndPos = endPos',
                itOptions = options, itFinished = False, previousTextPos = None,
                returnPreviousTextPos = False \<rparr>)"

text \<open>The inner function \<^verbatim>\<open>next\<close>: one step of the traversal.\<close>

definition reachedEnd :: "charIterator \<Rightarrow> DomPosition \<Rightarrow> bool" where
  "reachedEnd it pos = (case itEndPos it of None \<Rightarrow> False | Some ep \<Rightarrow> pos = ep)"

definition stepIterator :: "env \<Rightarrow> charIterator \<Rightarrow> error + (TextPosition option \<times> charIterator)" where
  "stepIterator e it =
     (if itFinished it then Inr (None, it)
      else if \<not> itBackward it
      then (case itPos it of
              None \<Rightarrow> Inl TypeError
            | Some pos0 \<Rightarrow>
                bindE (nextVisiblePosition e pos0) (\<lambda>np.
                  case np of
                    None \<Rightarrow> Inr (None, it\<lparr>itPos := None, itFinished := True\<rparr>)
                  | Some pos \<Rightarrow>
                      bindE (getCharacterAt e pos (itOptions it)) (\<lambda>textPos.
                        Inr (Some textPos,
                             it\<lparr>itPos := Some pos, itFinished := reachedEnd it pos\<rparr>))))
      else (case itPos it of
              None \<Rightarrow>
                bindE (previousVisiblePosition e None) (\<lambda>pp.
                  Inr (None, it\<lparr>itPos := pp, itFinished := True\<rparr>))
            | Some pos \<Rightarrow>
                bindE (getCharacterAt e pos (itOptions it)) (\<lambda>textPos.
                bindE (previousVisiblePosition e (Some pos)) (\<lambda>pp.
                  Inr (Some textPos, it\<lparr>itPos := pp, itFinished := reachedEnd it pos\<rparr>)))))"

text \<open>
  The method \<^verbatim>\<open>next\<close> of the iterator: the remembered character after a
  \<^verbatim>\<open>rewind\<close>, else the next character that is not empty; \<open>None\<close> is \<^verbatim>\<open>undefined\<close>.
\<close>

fun nextCharacter :: "nat \<Rightarrow> env \<Rightarrow> charIterator \<Rightarrow> error + (TextPosition option \<times> charIterator)" where
  "nextCharacter 0 e it = Inl OutOfFuel"
| "nextCharacter (Suc k) e it =
     bindE (stepIterator e it) (\<lambda>(tp, it').
       case tp of
         None \<Rightarrow> Inr (None, it')
       | Some textPos \<Rightarrow>
           if character textPos \<noteq> []
           then Inr (Some textPos, it'\<lparr>previousTextPos := Some textPos\<rparr>)
           else nextCharacter k e it')"

definition iteratorNext :: "env \<Rightarrow> charIterator \<Rightarrow> error + (TextPosition option \<times> charIterator)" where
  "iteratorNext e it =
     (if returnPreviousTextPos it
      then Inr (previousTextPos it, it\<lparr>returnPreviousTextPos := False\<rparr>)
      else nextCharacter (fuel e) e it)"

definition rewindMessage :: string where
  "rewindMessage = ''createCharacterIterator: cannot rewind. Only one position can be rewound.''"

definition iteratorRewind :: "charIterator \<Rightarrow> error + charIterator" where
  "iteratorRewind it =
     (case previousTextPos it of
        Some tp \<Rightarrow> Inr (it\<lparr>returnPreviousTextPos := True\<rparr>)
      | None \<Rightarrow> Inl (Thrown rewindMessage))"


section \<open>The tokenized text provider\<close>

text \<open>
  The state of one provider: its two iterators and its two token buffers.  The tokenizer is
  the default one.
\<close>

record provider =
  forwardIterator :: charIterator
  backwardIterator :: charIterator
  forwardTokensBuffer :: "token list"
  backwardTokensBuffer :: "token list"
  providerWordOptions :: wordOptions

text \<open>A tokenizer that does not return leaves the call without a result.\<close>

definition tokenizer :: "TextPosition list \<Rightarrow> wordOptions \<Rightarrow> error + token list" where
  "tokenizer cs wo = (case defaultTokenizer cs wo of None \<Rightarrow> Inl OutOfFuel | Some toks \<Rightarrow> Inr toks)"

text \<open>
  The loop of \<^verbatim>\<open>consumeWord\<close>: a word and the white space beyond it, from one iterator.
\<close>

fun consumeLoop ::
  "nat \<Rightarrow> env \<Rightarrow> charIterator \<Rightarrow> bool \<Rightarrow> bool \<Rightarrow> TextPosition list
     \<Rightarrow> error + (TextPosition list \<times> charIterator)" where
  "consumeLoop 0 e it passedWordBoundary insideWord newChars = Inl OutOfFuel"
| "consumeLoop (Suc k) e it passedWordBoundary insideWord newChars =
     bindE (iteratorNext e it) (\<lambda>(tp, it').
       case tp of
         None \<Rightarrow> Inr (newChars, it')
       | Some textPos \<Rightarrow>
           if allWhiteSpaceRegex (character textPos)
           then (if insideWord
                 then consumeLoop k e it' True False (newChars @ [textPos])
                 else consumeLoop k e it' passedWordBoundary insideWord (newChars @ [textPos]))
           else (if passedWordBoundary
                 then bindE (iteratorRewind it') (\<lambda>it''. Inr (newChars, it''))
                 else consumeLoop k e it' passedWordBoundary True (newChars @ [textPos])))"

definition consumeWord :: "env \<Rightarrow> provider \<Rightarrow> bool \<Rightarrow> error + (TextPosition list \<times> provider)" where
  "consumeWord e pr forward =
     (if forward
      then bindE (consumeLoop (fuel e) e (forwardIterator pr) False False []) (\<lambda>(cs, it).
             Inr (cs, pr\<lparr>forwardIterator := it\<rparr>))
      else bindE (consumeLoop (fuel e) e (backwardIterator pr) False False []) (\<lambda>(cs, it).
             Inr (cs, pr\<lparr>backwardIterator := it\<rparr>)))"

text \<open>
  \<^verbatim>\<open>arrayIndexOf(tokens, c.token)\<close> for the character at index \<open>k\<close> of the tokenized
  array: every token marks its characters when it is created, so the mark is that of the
  last token whose range holds \<open>k\<close>; \<open>None\<close> is the result \<^verbatim>\<open>-1\<close>.
\<close>

definition tokenIndexOf :: "tokenRange list \<Rightarrow> nat \<Rightarrow> nat option" where
  "tokenIndexOf rs k =
     (case filter (\<lambda>j. rangeStart (rs ! j) \<le> k \<and> k < rangeEnd (rs ! j)) (rev [0..<length rs]) of
        [] \<Rightarrow> None
      | j # _ \<Rightarrow> Some j)"

definition createTokenizedTextProvider ::
  "env \<Rightarrow> DomPosition \<Rightarrow> characterOptions \<Rightarrow> wordOptions \<Rightarrow> error + provider" where
  "createTokenizedTextProvider e pos options wo =
     bindE (createCharacterIterator e pos False None options) (\<lambda>fit.
     bindE (createCharacterIterator e pos True None options) (\<lambda>bit.
       let pr0 = \<lparr> forwardIterator = fit, backwardIterator = bit, forwardTokensBuffer = [],
                   backwardTokensBuffer = [], providerWordOptions = wo \<rparr>
       in bindE (consumeWord e pr0 True) (\<lambda>(forwardChars, pr1).
          bindE (consumeWord e pr1 False) (\<lambda>(consumed, pr2).
            let backwardChars = rev consumed;
                cs = backwardChars @ forwardChars
            in (case tokenRanges cs wo of
                  None \<Rightarrow> Inl OutOfFuel
                | Some rs \<Rightarrow>
                    let tokens = map (createTokenFromRange cs) rs;
                        fwd = (if forwardChars = [] then []
                               else (case tokenIndexOf rs (length backwardChars) of
                                       Some j \<Rightarrow> drop j tokens
                                     | None \<Rightarrow> drop (length tokens - 1) tokens));
                        bwd = (if backwardChars = [] then []
                               else (case tokenIndexOf rs (length backwardChars - 1) of
                                       Some j \<Rightarrow> take (Suc j) tokens
                                     | None \<Rightarrow> []))
                    in Inr (pr2\<lparr>forwardTokensBuffer := fwd, backwardTokensBuffer := bwd\<rparr>))))))"

text \<open>\<^verbatim>\<open>nextEndToken\<close>: \<open>None\<close> is the \<^verbatim>\<open>undefined\<close> that \<^verbatim>\<open>shift\<close> gives on an empty buffer.\<close>

fun nextEndTokenLoop :: "nat \<Rightarrow> env \<Rightarrow> provider \<Rightarrow> error + provider" where
  "nextEndTokenLoop 0 e pr = Inl OutOfFuel"
| "nextEndTokenLoop (Suc k) e pr =
     (case forwardTokensBuffer pr of
        [lastToken] \<Rightarrow>
          if \<not> isWord lastToken
          then bindE (consumeWord e pr True) (\<lambda>(forwardChars, pr').
                 if forwardChars \<noteq> []
                 then bindE (tokenizer (chars lastToken @ forwardChars) (providerWordOptions pr'))
                        (\<lambda>toks. nextEndTokenLoop k e (pr'\<lparr>forwardTokensBuffer := toks\<rparr>))
                 else Inr pr')
          else Inr pr
      | _ \<Rightarrow> Inr pr)"

definition nextEndToken :: "env \<Rightarrow> provider \<Rightarrow> error + (token option \<times> provider)" where
  "nextEndToken e pr =
     bindE (nextEndTokenLoop (fuel e) e pr) (\<lambda>pr'.
       case forwardTokensBuffer pr' of
         [] \<Rightarrow> Inr (None, pr')
       | t # ts \<Rightarrow> Inr (Some t, pr'\<lparr>forwardTokensBuffer := ts\<rparr>))"

text \<open>
  \<^verbatim>\<open>previousStartToken\<close>.  The body of its loop passes \<^verbatim>\<open>options\<close> to the tokenizer, a
  variable that no scope of the module declares: evaluating it raises a
  \<^verbatim>\<open>ReferenceError\<close> once the new characters are reversed.
\<close>

definition previousStartToken :: "env \<Rightarrow> provider \<Rightarrow> error + (token option \<times> provider)" where
  "previousStartToken e pr =
     bindE (case backwardTokensBuffer pr of
              [lastToken] \<Rightarrow>
                if \<not> isWord lastToken
                then bindE (consumeWord e pr False) (\<lambda>(backwardChars, pr').
                       if backwardChars \<noteq> [] then Inl ReferenceError else Inr pr')
                else Inr pr
            | _ \<Rightarrow> Inr pr)
       (\<lambda>pr'.
          if backwardTokensBuffer pr' = [] then Inr (None, pr')
          else Inr (Some (last (backwardTokensBuffer pr')),
                    pr'\<lparr>backwardTokensBuffer := butlast (backwardTokensBuffer pr')\<rparr>))"


section \<open>Ranges\<close>

text \<open>
  Modelled from the spec: the range object of the core library, a pair of boundary
  positions with the start not after the end in document order, and its methods
  \<^verbatim>\<open>setStart\<close>, \<^verbatim>\<open>setEnd\<close>, \<^verbatim>\<open>collapse\<close>, \<^verbatim>\<open>selectNodeContents\<close>,
  \<^verbatim>\<open>comparePoint\<close> and the function \<^verbatim>\<open>dom.comparePoints\<close>.  Setting a boundary beyond
  the other one collapses the range to the new boundary, which keeps the order.
\<close>

record domRange =
  startContainer :: path
  startOffset :: nat
  endContainer :: path
  endOffset :: nat

text \<open>Modelled from the spec: a node is an ancestor of another one, on paths.\<close>

definition properPrefix :: "path \<Rightarrow> path \<Rightarrow> bool" where
  "properPrefix a b = (length a < length b \<and> take (length a) b = a)"

text \<open>Modelled from the spec: the document order of two paths that are not on one branch is
  that of their first different index.\<close>

fun pathBefore :: "path \<Rightarrow> path \<Rightarrow> bool" where
  "pathBefore (i # a) (j # b) = (if i = j then pathBefore a b else i < j)"
| "pathBefore a b = False"

text \<open>Modelled from the spec: \<^verbatim>\<open>dom.comparePoints(nodeA, offsetA, nodeB, offsetB)\<close>, the order of
  two boundary points in the document: -1, 0 or 1.\<close>

definition comparePoints :: "path \<Rightarrow> nat \<Rightarrow> path \<Rightarrow> nat \<Rightarrow> int" where
  "comparePoints nodeA offsetA nodeB offsetB =
     (if nodeA = nodeB then (if offsetA = offsetB then 0 else if offsetA < offsetB then - 1 else 1)
      else if properPrefix nodeA nodeB
      then (if offsetA \<le> nodeB ! length nodeA then - 1 else 1)
      else if properPrefix nodeB nodeA
      then (if nodeA ! length nodeB < offsetB then - 1 else 1)
      else if pathBefore nodeA nodeB then - 1 else 1)"

text \<open>
  Modelled from the spec: the same comparison when a node stands where the first offset belongs, as
  \<^verbatim>\<open>toCharacterRange\<close> calls it: a node is neither equal to a number nor less than
  one, so every comparison that reads the first offset fails.
\<close>

definition comparePointsNodeOffset :: "path \<Rightarrow> path \<Rightarrow> path \<Rightarrow> nat \<Rightarrow> int" where
  "comparePointsNodeOffset nodeA offsetA nodeB offsetB =
     (if nodeA = nodeB then 1
      else if properPrefix nodeA nodeB then 1
      else if properPrefix nodeB nodeA
      then (if nodeA ! length nodeB < offsetB then - 1 else 1)
      else if pathBefore nodeA nodeB then - 1 else 1)"

definition getRangeStartPosition :: "domRange \<Rightarrow> DomPosition" where
  "getRangeStartPosition r = DomPosition (Some (startContainer r)) (startOffset r)"

definition getRangeEndPosition :: "domRange \<Rightarrow> DomPosition" where
  "getRangeEndPosition r = DomPosition (Some (endContainer r)) (endOffset r)"

text \<open>Modelled from the spec: the \<^verbatim>\<open>collapsed\<close> property of a range.\<close>

definition collapsed :: "domRange \<Rightarrow> bool" where
  "collapsed r = (startContainer r = endContainer r \<and> startOffset r = endOffset r)"

text \<open>Modelled from the spec: \<^verbatim>\<open>range.setStart(node, offset)\<close>; a start after the end collapses
  the range to the new start.\<close>

definition setStart :: "domRange \<Rightarrow> path option \<Rightarrow> nat \<Rightarrow> error + domRange" where
  "setStart r nd off =
     (case nd of
        None \<Rightarrow> Inl TypeError
      | Some p \<Rightarrow>
          if comparePoints p off (endContainer r) (endOffset r) = 1
          then Inr \<lparr> startContainer = p, startOffset = off, endContainer = p, endOffset = off \<rparr>
          else Inr (r\<lparr>startContainer := p, startOffset := off\<rparr>))"

text \<open>Modelled from the spec: \<^verbatim>\<open>range.setEnd(node, offset)\<close>; an end before the start collapses
  the range to the new end.\<close>

definition setEnd :: "domRange \<Rightarrow> path option \<Rightarrow> nat \<Rightarrow> error + domRange" where
  "setEnd r nd off =
     (case nd of
        None \<Rightarrow> Inl TypeError
      | Some p \<Rightarrow>
          if comparePoints p off (startContainer r) (startOffset r) = - 1
          then Inr \<lparr> startContainer = p, startOffset = off, endContainer = p, endOffset = off \<rparr>
          else Inr (r\<lparr>endContainer := p, endOffset := off\<rparr>))"

text \<open>Modelled from the spec: \<^verbatim>\<open>range.collapse(toStart)\<close>.\<close>

definition collapse :: "domRange \<Rightarrow> bool \<Rightarrow> domRange" where
  "collapse r toStart =
     (if toStart then r\<lparr>endContainer := startContainer r, endOffset := startOffset r\<rparr>
      else r\<lparr>startContainer := endContainer r, startOffset := endOffset r\<rparr>)"

text \<open>Modelled from the spec: \<^verbatim>\<open>range.selectNodeContents(node)\<close>, from offset 0 of the node to its
  length.\<close>

definition selectNodeContents :: "env \<Rightarrow> path \<Rightarrow> error + domRange" where
  "selectNodeContents e p =
     bindE (nodeAt e p) (\<lambda>n.
       Inr \<lparr> startContainer = p, startOffset = 0, endContainer = p,
             endOffset = getNodeLength n \<rparr>)"

text \<open>Modelled from the spec: \<^verbatim>\<open>api.createRange(doc)\<close>, a collapsed range at the start of the
  document.\<close>

definition createRange :: domRange where
  "createRange = \<lparr> startContainer = [], startOffset = 0, endContainer = [], endOffset = 0 \<rparr>"

text \<open>Modelled from the spec: \<^verbatim>\<open>range.comparePoint(node, offset)\<close>: -1 before the range, 1 after
  it, 0 inside.\<close>

definition comparePoint :: "domRange \<Rightarrow> path \<Rightarrow> nat \<Rightarrow> int" where
  "comparePoint r p off =
     (if comparePoints p off (startContainer r) (startOffset r) < 0 then - 1
      else if comparePoints p off (endContainer r) (endOffset r) > 0 then 1
      else 0)"

section \<open>Moving a position by characters or words\<close>

text \<open>
  The loop of the \<^verbatim>\<open>character\<close> case, by the number of characters still to move: the
  iterator is asked for one character more than the count.
\<close>

fun moveCharacters ::
  "nat \<Rightarrow> env \<Rightarrow> charIterator \<Rightarrow> nat \<Rightarrow> TextPosition option
     \<Rightarrow> error + (nat \<times> TextPosition option \<times> TextPosition option)" where
  "moveCharacters 0 e it unitsMoved newTextPos =
     bindE (iteratorNext e it) (\<lambda>(textPos, it'). Inr (unitsMoved, newTextPos, textPos))"
| "moveCharacters (Suc remaining) e it unitsMoved newTextPos =
     bindE (iteratorNext e it) (\<lambda>(textPos, it').
       case textPos of
         None \<Rightarrow> Inr (unitsMoved, newTextPos, None)
       | Some tp \<Rightarrow> moveCharacters remaining e it' (Suc unitsMoved) (Some tp))"

text \<open>The loop of the \<^verbatim>\<open>word\<close> case; \<^verbatim>\<open>token.chars[i]\<close> is \<^verbatim>\<open>undefined\<close> outside the array.\<close>

definition firstChar :: "token \<Rightarrow> TextPosition option" where
  "firstChar t = (if chars t = [] then None else Some (hd (chars t)))"

definition lastChar :: "token \<Rightarrow> TextPosition option" where
  "lastChar t = (if chars t = [] then None else Some (last (chars t)))"

fun moveWords ::
  "nat \<Rightarrow> env \<Rightarrow> provider \<Rightarrow> bool \<Rightarrow> nat \<Rightarrow> nat \<Rightarrow> TextPosition option
     \<Rightarrow> error + (nat \<times> TextPosition option)" where
  "moveWords 0 e pr backward absCount unitsMoved newTextPos = Inl OutOfFuel"
| "moveWords (Suc k) e pr backward absCount unitsMoved newTextPos =
     bindE (if backward then previousStartToken e pr else nextEndToken e pr) (\<lambda>(tok, pr').
       case tok of
         None \<Rightarrow> Inr (unitsMoved, newTextPos)
       | Some t \<Rightarrow>
           if unitsMoved < absCount
           then (if isWord t
                 then moveWords k e pr' backward absCount (Suc unitsMoved)
                        (if backward then firstChar t else lastChar t)
                 else moveWords k e pr' backward absCount unitsMoved newTextPos)
           else Inr (unitsMoved, newTextPos))"

definition CHARACTER :: string where
  "CHARACTER = ''character''"

definition WORD :: string where
  "WORD = ''word''"

definition notImplemented :: "string \<Rightarrow> error" where
  "notImplemented unit = Thrown (''movePositionBy: unit '' @ [CHR 0x27] @ unit @ [CHR 0x27] @ '' not implemented'')"

text \<open>
  \<^verbatim>\<open>movePositionBy\<close>: the new position (\<^verbatim>\<open>null\<close> when the step back from the first
  position of the document finds none) and the units moved.
\<close>

definition movePositionBy ::
  "env \<Rightarrow> DomPosition \<Rightarrow> string \<Rightarrow> int \<Rightarrow> characterOptions \<Rightarrow> wordOptions
     \<Rightarrow> error + (DomPosition option \<times> int)" where
  "movePositionBy e pos unit count options wo =
     (if count \<noteq> 0
      then (let backward = (count < 0); absCount = nat \<bar>count\<bar>
            in bindE
                 (if unit = CHARACTER
                  then bindE (createCharacterIterator e pos backward None options) (\<lambda>it.
                         moveCharacters absCount e it 0 None)
                  else if unit = WORD
                  then bindE (createTokenizedTextProvider e pos options wo) (\<lambda>pr.
                       bindE (moveWords (fuel e) e pr backward absCount 0 None) (\<lambda>(moved, ntp).
                         Inr (moved, ntp, None)))
                  else Inl (notImplemented unit))
                 (\<lambda>(unitsMoved, newTextPos, nextTextPos).
                    let newPos = (case newTextPos of None \<Rightarrow> pos | Some tp \<Rightarrow> position tp)
                    in if backward
                       then bindE (previousVisiblePosition e (Some newPos)) (\<lambda>np.
                              Inr (np, - int unitsMoved))
                       else if (case newTextPos of None \<Rightarrow> False | Some tp \<Rightarrow> isLeadingSpace tp)
                       then bindE
                              (if unit = WORD
                               then bindE (createCharacterIterator e pos False None options) (\<lambda>it.
                                    bindE (iteratorNext e it) (\<lambda>(tp, it'). Inr tp))
                               else Inr nextTextPos)
                              (\<lambda>nextTextPos'.
                                 case nextTextPos' of
                                   None \<Rightarrow> Inr (Some newPos, int unitsMoved)
                                 | Some ntp \<Rightarrow>
                                     bindE (previousVisiblePosition e (Some (position ntp)))
                                       (\<lambda>np. Inr (np, int unitsMoved)))
                       else Inr (Some newPos, int unitsMoved)))
      else Inr (Some pos, 0))"


section \<open>Range operations\<close>

record moveOptions =
  moveWordOptions :: "wordOptions option"
  moveCharacterOptions :: "characterOptions option"

definition createCharacterOptions :: "characterOptions option \<Rightarrow> characterOptions" where
  "createCharacterOptions param = (case param of None \<Rightarrow> defaultCharacterOptions | Some o' \<Rightarrow> o')"

definition createWordOptions :: "wordOptions option \<Rightarrow> wordOptions" where
  "createWordOptions param = (case param of None \<Rightarrow> defaultWordOptions | Some o' \<Rightarrow> o')"

text \<open>
  \<^verbatim>\<open>createRangeBoundaryMover(isStart, collapse)\<close>, called with a unit and a count: the
  range after the move and the units moved.
\<close>

definition moveBoundary ::
  "bool \<Rightarrow> bool \<Rightarrow> env \<Rightarrow> domRange \<Rightarrow> string \<Rightarrow> int \<Rightarrow> moveOptions \<Rightarrow> error + (domRange \<times> int)" where
  "moveBoundary isStart doCollapse e r unit count mo =
     (let options = createCharacterOptions (moveCharacterOptions mo);
          wo = createWordOptions (moveWordOptions mo);
          boundaryIsStart = (if doCollapse then count \<ge> 0 else isStart);
          r1 = (if doCollapse then collapse r (\<not> boundaryIsStart) else r);
          pos = (if boundaryIsStart then getRangeStartPosition r1 else getRangeEndPosition r1)
      in bindE (movePositionBy e pos unit count options wo) (\<lambda>(newPos, unitsMoved).
           case newPos of
             None \<Rightarrow> Inl TypeError
           | Some np \<Rightarrow>
               bindE (if boundaryIsStart then setStart r1 (node np) (offset np)
                      else setEnd r1 (node np) (offset np))
                 (\<lambda>r2. Inr (r2, unitsMoved))))"

definition moveStart :: "env \<Rightarrow> domRange \<Rightarrow> string \<Rightarrow> int \<Rightarrow> moveOptions \<Rightarrow> error + (domRange \<times> int)" where
  "moveStart = moveBoundary True False"

definition moveEnd :: "env \<Rightarrow> domRange \<Rightarrow> string \<Rightarrow> int \<Rightarrow> moveOptions \<Rightarrow> error + (domRange \<times> int)" where
  "moveEnd = moveBoundary False False"

definition move :: "env \<Rightarrow> domRange \<Rightarrow> string \<Rightarrow> int \<Rightarrow> moveOptions \<Rightarrow> error + (domRange \<times> int)" where
  "move = moveBoundary True True"

definition createRangeCharacterIterator ::
  "env \<Rightarrow> domRange \<Rightarrow> characterOptions \<Rightarrow> bool \<Rightarrow> error + charIterator" where
  "createRangeCharacterIterator e r options backward =
     (let rangeStart' = getRangeStartPosition r; rangeEnd' = getRangeEndPosition r;
          itStart = (if backward then rangeEnd' else rangeStart');
          itEnd = (if backward then rangeStart' else rangeEnd')
      in createCharacterIterator e itStart backward (Some itEnd) options)"

fun collectCharacters :: "nat \<Rightarrow> env \<Rightarrow> charIterator \<Rightarrow> TextPosition list \<Rightarrow> error + TextPosition list" where
  "collectCharacters 0 e it cs = Inl OutOfFuel"
| "collectCharacters (Suc k) e it cs =
     bindE (iteratorNext e it) (\<lambda>(tp, it').
       case tp of
         None \<Rightarrow> Inr cs
       | Some textPos \<Rightarrow> collectCharacters k e it' (cs @ [textPos]))"

definition getRangeCharacters :: "env \<Rightarrow> domRange \<Rightarrow> characterOptions \<Rightarrow> error + TextPosition list" where
  "getRangeCharacters e r options =
     bindE (createRangeCharacterIterator e r options False) (\<lambda>it.
       collectCharacters (fuel e) e it [])"

text \<open>The method \<^verbatim>\<open>text\<close> of a range.\<close>

definition rangeText :: "env \<Rightarrow> domRange \<Rightarrow> characterOptions option \<Rightarrow> error + string" where
  "rangeText e r options =
     (if collapsed r then Inr []
      else bindE (getRangeCharacters e r (createCharacterOptions options)) (\<lambda>cs.
             Inr (concat (map character cs))))"

text \<open>\<^verbatim>\<open>createRangeTrimmer(isStart)\<close>: the range after the trim and whether it was trimmed.\<close>

fun countWhiteSpace :: "nat \<Rightarrow> env \<Rightarrow> charIterator \<Rightarrow> nat \<Rightarrow> error + nat" where
  "countWhiteSpace 0 e it trimCharCount = Inl OutOfFuel"
| "countWhiteSpace (Suc k) e it trimCharCount =
     bindE (iteratorNext e it) (\<lambda>(tp, it').
       case tp of
         None \<Rightarrow> Inr trimCharCount
       | Some textPos \<Rightarrow>
           if allWhiteSpaceRegex (character textPos)
           then countWhiteSpace k e it' (Suc trimCharCount)
           else Inr trimCharCount)"

definition trimBoundary :: "bool \<Rightarrow> env \<Rightarrow> domRange \<Rightarrow> characterOptions option \<Rightarrow> error + (domRange \<times> bool)" where
  "trimBoundary isStart e r param =
     (let options = createCharacterOptions param
      in bindE (createRangeCharacterIterator e r options (\<not> isStart)) (\<lambda>it.
         bindE (countWhiteSpace (fuel e) e it 0) (\<lambda>trimCharCount.
           if trimCharCount > 0
           then bindE (moveBoundary isStart False e r CHARACTER
                         (if isStart then int trimCharCount else - int trimCharCount)
                         \<lparr> moveWordOptions = None, moveCharacterOptions = Some options \<rparr>)
                  (\<lambda>(r', moved). Inr (r', True))
           else Inr (r, False))))"

definition trimStart :: "env \<Rightarrow> domRange \<Rightarrow> characterOptions option \<Rightarrow> error + (domRange \<times> bool)" where
  "trimStart = trimBoundary True"

definition trimEnd :: "env \<Rightarrow> domRange \<Rightarrow> characterOptions option \<Rightarrow> error + (domRange \<times> bool)" where
  "trimEnd = trimBoundary False"

text \<open>
  \<^verbatim>\<open>selectCharacters(containerNode, startIndex, endIndex, characterOptions)\<close>
\<close>

definition selectCharacters ::
  "env \<Rightarrow> path \<Rightarrow> int \<Rightarrow> int \<Rightarrow> characterOptions option \<Rightarrow> error + domRange" where
  "selectCharacters e containerNode startIndex endIndex options =
     (let mo = \<lparr> moveWordOptions = None, moveCharacterOptions = options \<rparr>
      in bindE (selectNodeContents e containerNode) (\<lambda>r0.
         bindE (moveStart e (collapse r0 True) CHARACTER startIndex mo) (\<lambda>(r1, m1).
         bindE (moveEnd e (collapse r1 True) CHARACTER (endIndex - startIndex) mo) (\<lambda>(r2, m2).
           Inr r2))))"

text \<open>
  \<^verbatim>\<open>toCharacterRange(containerNode, characterOptions)\<close>.  The call of
  \<^verbatim>\<open>dom.comparePoints\<close> passes \<^verbatim>\<open>this.endContainer\<close> where the start offset belongs.
  A container without a parent leaves \<^verbatim>\<open>setStart\<close> and \<^verbatim>\<open>setEnd\<close> without a node.
\<close>

datatype CharacterRange = CharacterRange (startIndex: int) (endIndex: int)

definition toCharacterRange ::
  "env \<Rightarrow> domRange \<Rightarrow> path \<Rightarrow> characterOptions option \<Rightarrow> error + CharacterRange" where
  "toCharacterRange e r containerNode options =
     (case parentNode containerNode of
        None \<Rightarrow> Inl TypeError
      | Some parent \<Rightarrow>
          (let nodeIndex = getNodeIndex containerNode;
               rangeStartsBeforeNode =
                 (comparePointsNodeOffset (startContainer r) (endContainer r) parent nodeIndex = - 1)
           in bindE
                (if rangeStartsBeforeNode
                 then bindE (setStart r (Some (startContainer r)) (startOffset r)) (\<lambda>rb.
                      bindE (setEnd rb (Some parent) nodeIndex) (\<lambda>rangeBetween.
                      bindE (rangeText e rangeBetween options) (\<lambda>t. Inr (- int (length t)))))
                 else bindE (setStart r (Some parent) nodeIndex) (\<lambda>rb.
                      bindE (setEnd rb (Some (startContainer r)) (startOffset r)) (\<lambda>rangeBetween.
                      bindE (rangeText e rangeBetween options) (\<lambda>t. Inr (int (length t))))))
                (\<lambda>start.
                   bindE (rangeText e r options) (\<lambda>t.
                     Inr (CharacterRange start (start + int (length t)))))))"


section \<open>Expanding a range to words\<close>

record expandOptions =
  expandWordOptions :: "wordOptions option"
  expandCharacterOptions :: "characterOptions option"
  trim :: bool
  expandTrimStart :: bool
  expandTrimEnd :: bool

definition defaultExpandOptions :: expandOptions where
  "defaultExpandOptions =
     \<lparr> expandWordOptions = None, expandCharacterOptions = None, trim = False,
       expandTrimStart = True, expandTrimEnd = True \<rparr>"

text \<open>
  \<^verbatim>\<open>expand(unit, expandOptions)\<close>: the range after the call and the value returned, as
  a truth value.  An empty unit stands for \<^verbatim>\<open>character\<close>; every unit but \<^verbatim>\<open>word\<close>
  moves the end by one character.
\<close>

definition expand :: "env \<Rightarrow> domRange \<Rightarrow> string \<Rightarrow> expandOptions \<Rightarrow> error + (domRange \<times> bool)" where
  "expand e r unit eo =
     (let options = createCharacterOptions (expandCharacterOptions eo)
      in if unit = WORD
         then (let wo = createWordOptions (expandWordOptions eo);
                   startPos = getRangeStartPosition r;
                   endPos = getRangeEndPosition r
               in bindE (createTokenizedTextProvider e startPos options wo) (\<lambda>startProvider.
                  bindE (nextEndToken e startProvider) (\<lambda>(startToken, sp').
                  bindE (case startToken of
                           None \<Rightarrow> Inl TypeError
                         | Some t \<Rightarrow>
                             (case firstChar t of
                                None \<Rightarrow> Inl TypeError
                              | Some c \<Rightarrow> previousVisiblePosition e (Some (position c))))
                    (\<lambda>newStartPos.
                  bindE (if collapsed r then Inr startToken
                         else bindE (createTokenizedTextProvider e endPos options wo) (\<lambda>endProvider.
                              bindE (previousStartToken e endProvider) (\<lambda>(endToken, ep'). Inr endToken)))
                    (\<lambda>endToken.
                  bindE (case endToken of
                           None \<Rightarrow> Inl TypeError
                         | Some t \<Rightarrow>
                             (case lastChar t of
                                None \<Rightarrow> Inl TypeError
                              | Some c \<Rightarrow> Inr (position c)))
                    (\<lambda>newEndPos.
                  bindE (case newStartPos of
                           None \<Rightarrow> Inl TypeError
                         | Some nsp \<Rightarrow>
                             if nsp \<noteq> startPos
                             then bindE (setStart r (node nsp) (offset nsp)) (\<lambda>r'. Inr (r', True))
                             else Inr (r, False))
                    (\<lambda>(r1, moved1).
                  bindE (if newEndPos \<noteq> endPos
                         then bindE (setEnd r1 (node newEndPos) (offset newEndPos)) (\<lambda>r'. Inr (r', True))
                         else Inr (r1, moved1))
                    (\<lambda>(r2, moved2).
                       if trim eo
                       then bindE (if expandTrimStart eo
                                   then bindE (trimStart e r2 (Some options)) (\<lambda>(r', t). Inr (r', t \<or> moved2))
                                   else Inr (r2, moved2))
                              (\<lambda>(r3, moved3).
                                 if expandTrimEnd eo
                                 then bindE (trimEnd e r3 (Some options)) (\<lambda>(r', t). Inr (r', t \<or> moved3))
                                 else Inr (r3, moved3))
                       else Inr (r2, moved2)))))))))
         else bindE (moveEnd e r CHARACTER 1
                       \<lparr> moveWordOptions = expandWordOptions eo,
                         moveCharacterOptions = expandCharacterOptions eo \<rparr>)
                (\<lambda>(r', unitsMoved). Inr (r', unitsMoved \<noteq> 0)))"

text \<open>
  \<^verbatim>\<open>isWholeWord\<close> passes its word options where \<^verbatim>\<open>expand\<close> expects expand options:
  they have no property \<^verbatim>\<open>wordOptions\<close>, \<^verbatim>\<open>characterOptions\<close> or \<^verbatim>\<open>trim\<close>, so
  \<^verbatim>\<open>expand\<close> runs with its defaults.  The range it expands is a new one, set to the two
  positions.
\<close>

definition rangeBetweenPositions :: "domRange \<Rightarrow> DomPosition \<Rightarrow> DomPosition \<Rightarrow> error + domRange" where
  "rangeBetweenPositions r startPos endPos =
     bindE (setStart r (node startPos) (offset startPos)) (\<lambda>r1.
       setEnd r1 (node endPos) (offset endPos))"

definition isWholeWord :: "env \<Rightarrow> DomPosition option \<Rightarrow> DomPosition \<Rightarrow> error + bool" where
  "isWholeWord e startPos endPos =
     (case startPos of
        None \<Rightarrow> Inl TypeError
      | Some sp \<Rightarrow>
          bindE (rangeBetweenPositions createRange sp endPos) (\<lambda>r.
          bindE (expand e r WORD defaultExpandOptions) (\<lambda>(r', moved). Inr (\<not> moved))))"

section \<open>Finding text\<close>

datatype searchTerm = StringTerm string | RegexTerm regex

text \<open>
  The find options.  The character iterator of a search receives the find options object
  as its character options, so it reads \<^verbatim>\<open>collapseSpaceBeforeLineBreak\<close> there.
\<close>

record findOptions =
  caseSensitive :: bool
  withinRange :: "domRange option"
  wholeWordsOnly :: bool
  wrap :: bool
  direction :: string
  findCollapseSpaceBeforeLineBreak :: bool

definition defaultFindOptions :: findOptions where
  "defaultFindOptions =
     \<lparr> caseSensitive = False, withinRange = None, wholeWordsOnly = False, wrap = False,
       direction = ''forward'', findCollapseSpaceBeforeLineBreak = False \<rparr>"

text \<open>Modelled from the spec: \<^verbatim>\<open>isDirectionBackward\<close> of the core library, the search direction.\<close>

definition isDirectionBackward :: "string \<Rightarrow> bool" where
  "isDirectionBackward d = (toLowerCase d = ''backward'' \<or> toLowerCase d = ''backwards'')"

text \<open>\<^verbatim>\<open>String.prototype.indexOf\<close>; \<open>None\<close> is \<^verbatim>\<open>-1\<close>.\<close>

definition indexOf :: "string \<Rightarrow> string \<Rightarrow> nat option" where
  "indexOf s t =
     (if length t \<le> length s
      then List.find (\<lambda>i. take (length t) (drop i s) = t) [0..<Suc (length s - length t)]
      else None)"

record findResult =
  resultStartPos :: "DomPosition option"
  resultEndPos :: DomPosition
  valid :: bool

text \<open>\<^verbatim>\<open>handleMatch(startIndex, endIndex)\<close>; an index is \<open>None\<close> when it is \<^verbatim>\<open>undefined\<close>.\<close>

definition handleMatch ::
  "env \<Rightarrow> findOptions \<Rightarrow> TextPosition list \<Rightarrow> nat option \<Rightarrow> nat option \<Rightarrow> error + findResult" where
  "handleMatch e fo cs startIdx endIdx =
     (case (startIdx, endIdx) of
        (Some s, Some en) \<Rightarrow>
          if s < length cs \<and> 0 < en \<and> en - 1 < length cs
          then bindE (previousVisiblePosition e (Some (position (cs ! s)))) (\<lambda>sp.
                 let ep = position (cs ! (en - 1))
                 in bindE (if wholeWordsOnly fo then isWholeWord e sp ep else Inr True) (\<lambda>v.
                      Inr \<lparr> resultStartPos = sp, resultEndPos = ep, valid = v \<rparr>))
          else Inl TypeError
      | _ \<Rightarrow> Inl TypeError)"

text \<open>
  The loop of \<^verbatim>\<open>findTextFromPosition\<close>.  Its result is the value of \<^verbatim>\<open>returnValue\<close>
  when the loop ends, with \<^verbatim>\<open>insideRegexMatch\<close>, the two match indexes and the
  \<^verbatim>\<open>lastIndex\<close> of a regular expression term.
\<close>

fun findLoop ::
  "nat \<Rightarrow> env \<Rightarrow> findOptions \<Rightarrow> searchTerm \<Rightarrow> bool \<Rightarrow> charIterator \<Rightarrow> string \<Rightarrow> TextPosition list
     \<Rightarrow> bool \<Rightarrow> nat option \<Rightarrow> nat option \<Rightarrow> nat
     \<Rightarrow> error + (findResult option \<times> TextPosition list \<times> bool \<times> nat option \<times> nat option \<times> nat)" where
  "findLoop 0 e fo term backward it txt cs inside ms me lastIndex = Inl OutOfFuel"
| "findLoop (Suc k) e fo term backward it txt cs inside ms me lastIndex =
     bindE (iteratorNext e it) (\<lambda>(tp, it').
       case tp of
         None \<Rightarrow> Inr (None, cs, inside, ms, me, lastIndex)
       | Some textPos \<Rightarrow>
           (let currentChar = (case term of
                                 StringTerm t \<Rightarrow> if caseSensitive fo then character textPos
                                                 else toLowerCase (character textPos)
                               | RegexTerm re \<Rightarrow> character textPos);
                cs' = (if backward then textPos # cs else cs @ [textPos]);
                txt' = (if backward then currentChar @ txt else txt @ currentChar)
            in case term of
                 RegexTerm re \<Rightarrow>
                   (case regexExec re txt' lastIndex of
                      None \<Rightarrow>
                        findLoop k e fo term backward it' txt' cs' inside ms me
                          (if global re then 0 else lastIndex)
                    | Some (idx, len) \<Rightarrow>
                        (let lastIndex' = (if global re then idx + len else lastIndex)
                         in if inside
                            then (if (\<not> backward \<and> idx + len < length txt') \<or> (backward \<and> idx > 0)
                                  then bindE (handleMatch e fo cs' (Some idx) (Some (idx + len)))
                                         (\<lambda>fr. Inr (Some fr, cs', inside, Some idx, Some (idx + len),
                                                    lastIndex'))
                                  else findLoop k e fo term backward it' txt' cs' inside (Some idx)
                                         (Some (idx + len)) lastIndex')
                            else findLoop k e fo term backward it' txt' cs' True ms me lastIndex'))
               | StringTerm t \<Rightarrow>
                   (case indexOf txt' t of
                      Some idx \<Rightarrow>
                        bindE (handleMatch e fo cs' (Some idx) (Some (idx + length t)))
                          (\<lambda>fr. Inr (Some fr, cs', inside, Some idx, me, lastIndex))
                    | None \<Rightarrow> findLoop k e fo term backward it' txt' cs' inside None me lastIndex)))"


definition findCharacterOptions :: "findOptions \<Rightarrow> characterOptions" where
  "findCharacterOptions fo = \<lparr> collapseSpaceBeforeLineBreak = findCollapseSpaceBeforeLineBreak fo \<rparr>"

definition findTextFromPosition ::
  "env \<Rightarrow> DomPosition option \<Rightarrow> searchTerm \<Rightarrow> domRange \<Rightarrow> findOptions \<Rightarrow> nat
     \<Rightarrow> error + (findResult option \<times> nat)" where
  "findTextFromPosition e initialPos term searchScopeRange fo lastIndex =
     (case initialPos of
        None \<Rightarrow> Inl TypeError
      | Some ip \<Rightarrow>
          (let backward = isDirectionBackward (direction fo)
           in bindE (createCharacterIterator e ip backward
                       (Some (if backward then getRangeStartPosition searchScopeRange
                              else getRangeEndPosition searchScopeRange))
                       (findCharacterOptions fo)) (\<lambda>it.
              bindE (findLoop (fuel e) e fo term backward it [] [] False None None lastIndex)
                (\<lambda>(returnValue, cs, inside, ms, me, lastIndex').
                   if inside
                   then bindE (handleMatch e fo cs ms me) (\<lambda>fr. Inr (Some fr, lastIndex'))
                   else Inr (returnValue, lastIndex')))))"

text \<open>
  The branch of \<^verbatim>\<open>findText\<close> that wraps the search around: the position it goes on
  from, and the new scope, which ends (or, backwards, starts) at the initial position.
\<close>

definition wrapPosition :: "findOptions \<Rightarrow> domRange \<Rightarrow> DomPosition" where
  "wrapPosition fo searchScopeRange =
     (if isDirectionBackward (direction fo) then getRangeEndPosition searchScopeRange
      else getRangeStartPosition searchScopeRange)"

definition wrapScope :: "findOptions \<Rightarrow> domRange \<Rightarrow> DomPosition \<Rightarrow> error + domRange" where
  "wrapScope fo searchScopeRange initialPos =
     (if isDirectionBackward (direction fo)
      then setStart searchScopeRange (node initialPos) (offset initialPos)
      else setEnd searchScopeRange (node initialPos) (offset initialPos))"

text \<open>
  The loop of \<^verbatim>\<open>findText\<close>: the value returned, the range after the call and the
  \<^verbatim>\<open>lastIndex\<close> of a regular expression term.
\<close>

fun findTextLoop ::
  "nat \<Rightarrow> env \<Rightarrow> domRange \<Rightarrow> searchTerm \<Rightarrow> findOptions \<Rightarrow> DomPosition \<Rightarrow> DomPosition option
     \<Rightarrow> domRange \<Rightarrow> bool \<Rightarrow> nat \<Rightarrow> error + (bool \<times> domRange \<times> nat)" where
  "findTextLoop 0 e r term fo initialPos pos searchScopeRange wrappedAround lastIndex = Inl OutOfFuel"
| "findTextLoop (Suc k) e r term fo initialPos pos searchScopeRange wrappedAround lastIndex =
     bindE (findTextFromPosition e pos term searchScopeRange fo lastIndex) (\<lambda>(findResult, lastIndex').
       case findResult of
         Some fr \<Rightarrow>
           if valid fr
           then (case resultStartPos fr of
                   None \<Rightarrow> Inl TypeError
                 | Some sp \<Rightarrow>
                     bindE (rangeBetweenPositions r sp (resultEndPos fr)) (\<lambda>r'.
                       Inr (True, r', lastIndex')))
           else findTextLoop k e r term fo initialPos
                  (if isDirectionBackward (direction fo) then resultStartPos fr
                   else Some (resultEndPos fr))
                  searchScopeRange wrappedAround lastIndex'
       | None \<Rightarrow>
           if wrap fo \<and> \<not> wrappedAround
           then bindE (wrapScope fo searchScopeRange initialPos) (\<lambda>scope'.
                  findTextLoop k e r term fo initialPos
                    (Some (wrapPosition fo searchScopeRange)) scope' True lastIndex')
           else Inr (False, r, lastIndex'))"

definition prepareSearchTerm :: "searchTerm \<Rightarrow> findOptions \<Rightarrow> searchTerm" where
  "prepareSearchTerm term fo =
     (case term of
        StringTerm t \<Rightarrow> if caseSensitive fo then StringTerm t else StringTerm (toLowerCase t)
      | RegexTerm re \<Rightarrow> RegexTerm re)"

definition findText ::
  "env \<Rightarrow> domRange \<Rightarrow> searchTerm \<Rightarrow> findOptions \<Rightarrow> nat \<Rightarrow> error + (bool \<times> domRange \<times> nat)" where
  "findText e r searchTermParam fo lastIndex =
     (let backward = isDirectionBackward (direction fo)
      in bindE (case withinRange fo of
                  None \<Rightarrow> selectNodeContents e []
                | Some scope \<Rightarrow> Inr scope) (\<lambda>searchScopeRange.
           let term = prepareSearchTerm searchTermParam fo;
               initialPos0 = (if backward then getRangeEndPosition r else getRangeStartPosition r);
               comparison = (case node initialPos0 of
                               None \<Rightarrow> 0
                             | Some p \<Rightarrow> comparePoint searchScopeRange p (offset initialPos0));
               initialPos = (if comparison = - 1 then getRangeStartPosition searchScopeRange
                             else if comparison = 1 then getRangeEndPosition searchScopeRange
                             else initialPos0)
           in findTextLoop (fuel e) e r term fo initialPos (Some initialPos) searchScopeRange False
                lastIndex))"


section \<open>Saving and restoring a selection with markers\<close>

text \<open>
  Modelled from the spec: the document and the selection as the save and restore module
  uses them, through \<^verbatim>\<open>getElementById\<close>, \<^verbatim>\<open>setStartBefore\<close>, \<^verbatim>\<open>setEndBefore\<close>,
  \<^verbatim>\<open>removeChild\<close>, \<^verbatim>\<open>removeAllRanges\<close> and \<^verbatim>\<open>addRange\<close>.  The document is the
  sequence of its nodes in document order, each a marker element with its id or another
  node; a boundary is the index of the node it stands before; a range is a pair of
  boundaries, and removing a node moves the boundaries behind it, as live ranges do.
\<close>

datatype item = Marker string | Other

type_synonym markerRange = "nat \<times> nat"

record world =
  items :: "item list"
  selection :: "markerRange list"

record rangeInfo =
  startMarkerId :: string
  endMarkerId :: string

record savedSelection =
  rangeInfos :: "rangeInfo list"
  restored :: bool

text \<open>Modelled from the spec: \<^verbatim>\<open>doc.getElementById(markerId)\<close>, the first element with the id.\<close>

definition getElementById :: "item list \<Rightarrow> string \<Rightarrow> nat option" where
  "getElementById its markerId =
     (case filter (\<lambda>k. its ! k = Marker markerId) [0..<length its] of
        [] \<Rightarrow> None
      | k # _ \<Rightarrow> Some k)"

text \<open>Modelled from the spec: \<^verbatim>\<open>setStartBefore\<close> and \<^verbatim>\<open>setEndBefore\<close> of a range, which keep the
  start not after the end.\<close>

definition setBefore :: "markerRange \<Rightarrow> nat \<Rightarrow> bool \<Rightarrow> markerRange" where
  "setBefore r k atStart =
     (if atStart then (if k > snd r then (k, k) else (k, snd r))
      else (if k < fst r then (k, k) else (fst r, k)))"

text \<open>Modelled from the spec: \<^verbatim>\<open>removeChild\<close> on a marker; a boundary behind the removed node
  moves one place forward.\<close>

definition afterRemoval :: "nat \<Rightarrow> nat \<Rightarrow> nat" where
  "afterRemoval k b = (if b > k then b - 1 else b)"

definition removeItem :: "world \<Rightarrow> nat \<Rightarrow> world" where
  "removeItem w k =
     \<lparr> items = take k (items w) @ drop (Suc k) (items w),
       selection = map (\<lambda>(s, en). (afterRemoval k s, afterRemoval k en)) (selection w) \<rparr>"

text \<open>
  \<^verbatim>\<open>setRangeBoundary(doc, range, markerId, atStart)\<close>: a marker that is not in the
  document leaves \<^verbatim>\<open>null\<close> for \<^verbatim>\<open>markerEl\<close>.
\<close>

definition setRangeBoundary ::
  "world \<Rightarrow> markerRange \<Rightarrow> string \<Rightarrow> bool \<Rightarrow> error + (world \<times> markerRange)" where
  "setRangeBoundary w r markerId atStart =
     (case getElementById (items w) markerId of
        None \<Rightarrow> Inl TypeError
      | Some k \<Rightarrow>
          (let (s, en) = setBefore r k atStart
           in Inr (removeItem w k, (afterRemoval k s, afterRemoval k en))))"

text \<open>
  \<^verbatim>\<open>range.normalizeBoundaries()\<close> is a method of the core library that works on the host's
  tree: it may join the text nodes that meet at a boundary of the range.  The module only
  calls it, so the model takes it as an argument: a function from the document and the range
  to the document and the range after the call, or an error.
\<close>

type_synonym normalizer = "world \<Rightarrow> markerRange \<Rightarrow> error + (world \<times> markerRange)"

text \<open>The loop of \<^verbatim>\<open>restoreSelection\<close> over the range infos.\<close>

fun restoreRanges :: "normalizer \<Rightarrow> world \<Rightarrow> rangeInfo list \<Rightarrow> error + world" where
  "restoreRanges normalizeBoundaries w [] = Inr w"
| "restoreRanges normalizeBoundaries w (info # infos) =
     bindE (setRangeBoundary w (0, 0) (startMarkerId info) True) (\<lambda>(w1, r1).
     bindE (setRangeBoundary w1 r1 (endMarkerId info) False) (\<lambda>(w2, r2).
     bindE (normalizeBoundaries w2 r2) (\<lambda>(w3, r3).
       restoreRanges normalizeBoundaries (w3\<lparr>selection := selection w3 @ [r3]\<rparr>) infos)))"

definition restoreSelection ::
  "normalizer \<Rightarrow> world \<Rightarrow> savedSelection \<Rightarrow> error + (world \<times> savedSelection)" where
  "restoreSelection normalizeBoundaries w saved =
     (if \<not> restored saved
      then bindE (restoreRanges normalizeBoundaries (w\<lparr>selection := []\<rparr>) (rangeInfos saved))
             (\<lambda>w'. Inr (w', saved\<lparr>restored := True\<rparr>))
      else Inr (w, saved))"


section \<open>Example documents\<close>

definition blockStyle :: style where
  "blockStyle = Style ''block'' ''normal'' ''visible''"

definition inlineStyle :: style where
  "inlineStyle = Style ''inline'' ''normal'' ''visible''"

definition hiddenStyle :: style where
  "hiddenStyle = Style ''none'' ''normal'' ''visible''"

definition exampleEnv :: "dnode \<Rightarrow> env" where
  "exampleEnv d = \<lparr> doc = d, tableCssDisplayBlock = False, fuel = 60 \<rparr>"

text \<open>\<^verbatim>\<open><div>a  b</div>\<close>, with two spaces in the text.\<close>

definition doubleSpaceDoc :: dnode where
  "doubleSpaceDoc = Document [Element ''div'' blockStyle [Text ''a  b'']]"

text \<open>\<^verbatim>\<open><body><p>x <span>a  b</span> y</p></body>\<close>: the same text in an inline container with
  text on both sides.\<close>

definition nestedSpaceDoc :: dnode where
  "nestedSpaceDoc =
     Document [Element ''body'' blockStyle
                 [Element ''p'' blockStyle
                    [Text ''x '', Element ''span'' inlineStyle [Text ''a  b''], Text '' y'']]]"

text \<open>\<^verbatim>\<open><body><div style="display: none"><span>x</span></div>y</body>\<close>\<close>

definition hiddenDoc :: dnode where
  "hiddenDoc =
     Document [Element ''body'' blockStyle
                 [Element ''div'' hiddenStyle [Element ''span'' inlineStyle [Text ''x'']],
                  Text ''y'']]"

text \<open>\<^verbatim>\<open><div>concatenate cat</div>\<close> and \<^verbatim>\<open><div>cat sat</div>\<close>\<close>

definition catDoc :: dnode where
  "catDoc = Document [Element ''div'' blockStyle [Text ''concatenate cat'']]"


text \<open>An iterator over \<^verbatim>\<open><div>a  b</div>\<close> from the start of its text.\<close>

definition firstIterator :: "error + charIterator" where
  "firstIterator =
     createCharacterIterator (exampleEnv doubleSpaceDoc) (DomPosition (Some [0, 0]) 0) False None
       defaultCharacterOptions"

text \<open>\<^verbatim>\<open><body><div>1</div><div>2</div></body>\<close>\<close>

definition twoBlocksDoc :: dnode where
  "twoBlocksDoc =
     Document [Element ''body'' blockStyle
                 [Element ''div'' blockStyle [Text ''1''], Element ''div'' blockStyle [Text ''2'']]]"

text \<open>
  A document with the two markers of one saved range, and its saved selection.  No text
  nodes meet at the markers, so \<^verbatim>\<open>normalizeBoundaries\<close> has nothing to join there.
\<close>

definition nothingToJoin :: normalizer where
  "nothingToJoin w r = Inr (w, r)"


definition markedWorld :: world where
  "markedWorld =
     \<lparr> items = [Other, Marker ''selectionBoundary_1'', Other, Other,
                 Marker ''selectionBoundary_2'', Other],
       selection = [(0, 1)] \<rparr>"

definition markedSelection :: savedSelection where
  "markedSelection =
     \<lparr> rangeInfos = [\<lparr> startMarkerId = ''selectionBoundary_1'',
                        endMarkerId = ''selectionBoundary_2'' \<rparr>],
       restored = False \<rparr>"




definition lastCat :: domRange where
  "lastCat = \<lparr> startContainer = [0, 0], startOffset = 12, endContainer = [0, 0], endOffset = 15 \<rparr>"

text \<open>\<^verbatim>\<open><body><p>1</p>   <p>2</p></body>\<close>, with white space between the paragraphs.\<close>

definition spacedBlocksDoc :: dnode where
  "spacedBlocksDoc =
     Document [Element ''body'' blockStyle
                 [Element ''p'' blockStyle [Text ''1''], Text ''   '',
                  Element ''p'' blockStyle [Text ''2'']]]"


text \<open>The start of the text \<^verbatim>\<open>x\<close> in the hidden \<^verbatim>\<open>div\<close>.\<close>

definition insideHidden :: DomPosition where
  "insideHidden = DomPosition (Some [0, 0, 0, 0]) 0"


section \<open>Selecting characters and reading them back\<close>

text \<open>
  Claim C1 at a container that is hidden.  In
  \<^verbatim>\<open><body><div style="display: none"><span>x</span></div>y</body>\<close> the plain text of the
  \<^verbatim>\<open>div\<close> is empty, and \<^verbatim>\<open>selectCharacters(div, 0, 0)\<close> collapses the range to the start
  of the \<^verbatim>\<open>div\<close>.  \<^verbatim>\<open>toCharacterRange(div)\<close> then measures the text from before the
  \<^verbatim>\<open>div\<close> to that start: the iterator never reaches its end position, which the
  adjustment has moved to the end of the \<^verbatim>\<open>div\<close>, a position inside the collapsed node,
  and runs on to the end of the document, over the \<^verbatim>\<open>y\<close>.  The result is the character
  range from 1 to 1, not from 0 to 0.
\<close>

theorem round_trip_hidden_container:
  "bindE (selectNodeContents (exampleEnv hiddenDoc) [0, 0])
     (\<lambda>r. rangeText (exampleEnv hiddenDoc) r None) = Inr []
   \<and> selectCharacters (exampleEnv hiddenDoc) [0, 0] 0 0 None
       = Inr \<lparr> startContainer = [0, 0], startOffset = 0, endContainer = [0, 0], endOffset = 0 \<rparr>
   \<and> bindE (selectCharacters (exampleEnv hiddenDoc) [0, 0] 0 0 None)
       (\<lambda>r. toCharacterRange (exampleEnv hiddenDoc) r [0, 0] None) = Inr (CharacterRange 1 1)
   \<and> map_sum id itEndPos
       (createCharacterIterator (exampleEnv hiddenDoc) (DomPosition (Some [0]) 0) False
          (Some (DomPosition (Some [0, 0]) 0)) defaultCharacterOptions)
       = Inr (Some (DomPosition (Some [0, 0]) 1))"
  by code_simp

text \<open>
  On the visible \<^verbatim>\<open>div\<close> of \<^verbatim>\<open><div>a  b</div>\<close>, whose plain text is \<^verbatim>\<open>a b\<close>, the
  indexes come back as they were given.
\<close>

lemma round_trip_visible_container:
  "list_all (\<lambda>(i, j).
       bindE (selectCharacters (exampleEnv doubleSpaceDoc) [0] i j None)
         (\<lambda>r. toCharacterRange (exampleEnv doubleSpaceDoc) r [0] None) = Inr (CharacterRange i j))
     [(0, 0), (0, 1), (0, 2), (0, 3), (1, 1), (1, 2), (1, 3), (2, 2), (2, 3), (3, 3)]"
  by code_simp

section \<open>Whole-word search\<close>

lemma rangeBetweenPositions_any:
  "rangeBetweenPositions r sp ep = rangeBetweenPositions r' sp ep"
  by (cases "node sp"; cases "node ep")
     (auto simp: rangeBetweenPositions_def setStart_def setEnd_def bindE_def)

lemma expand_unmoved:
  assumes "expand e r WORD eo = Inr (r', False)" and "\<not> trim eo"
  shows "r' = r"
  using assms
  by (auto simp: expand_def bindE_def Let_def split: sum.splits option.splits if_splits prod.splits)

lemma isWholeWord_expand:
  assumes "isWholeWord e sp ep = Inr True"
  shows "\<exists>p r0. sp = Some p \<and> rangeBetweenPositions createRange p ep = Inr r0
           \<and> expand e r0 WORD defaultExpandOptions = Inr (r0, False)"
proof -
  from assms obtain p r0 r1 where p: "sp = Some p"
    and r0: "rangeBetweenPositions createRange p ep = Inr r0"
    and ex: "expand e r0 WORD defaultExpandOptions = Inr (r1, False)"
    by (auto simp: isWholeWord_def bindE_def split: option.splits sum.splits)
  have "r1 = r0" by (rule expand_unmoved [OF ex]) (simp add: defaultExpandOptions_def)
  with p r0 ex show ?thesis by simp
qed

lemma handleMatch_valid:
  assumes "handleMatch e fo cs s en = Inr fr" and "wholeWordsOnly fo"
  shows "isWholeWord e (resultStartPos fr) (resultEndPos fr) = Inr (valid fr)"
  using assms
  by (auto simp: handleMatch_def bindE_def Let_def split: option.splits sum.splits if_splits)

lemma findLoop_valid:
  assumes "wholeWordsOnly fo"
  shows "findLoop k e fo tm backward it tx cs ins ms me li = Inr (Some fr, rest) \<Longrightarrow>
         isWholeWord e (resultStartPos fr) (resultEndPos fr) = Inr (valid fr)"
proof (induction k arbitrary: it tx cs ins ms me li)
  case 0
  then show ?case by simp
next
  case (Suc k)
  from Suc.prems obtain tp it' where n: "iteratorNext e it = Inr (tp, it')"
    by (auto simp: bindE_def split: sum.splits)
  show ?case
  proof (cases tp)
    case None
    with Suc.prems n show ?thesis by (simp add: bindE_def)
  next
    case (Some textPos)
    show ?thesis
    proof (cases tm)
      case (StringTerm t)
      with Suc.prems n Some show ?thesis
        using Suc.IH handleMatch_valid [OF _ assms]
        by (auto simp: bindE_def Let_def split: option.splits sum.splits if_splits)
    next
      case (RegexTerm re)
      with Suc.prems n Some show ?thesis
        using Suc.IH handleMatch_valid [OF _ assms]
        by (auto simp: bindE_def Let_def split: option.splits sum.splits if_splits prod.splits)
    qed
  qed
qed

lemma findTextFromPosition_valid:
  assumes "findTextFromPosition e pos tm scope fo li = Inr (Some fr, la)" and "wholeWordsOnly fo"
  shows "isWholeWord e (resultStartPos fr) (resultEndPos fr) = Inr (valid fr)"
  using assms findLoop_valid [OF assms(2)] handleMatch_valid [OF _ assms(2)]
  by (auto simp: findTextFromPosition_def bindE_def Let_def split: option.splits sum.splits if_splits prod.splits)

lemma findTextLoop_found:
  assumes "wholeWordsOnly fo"
  shows "findTextLoop k e r tm fo ip pos scope wrapped li = Inr (True, r', li') \<Longrightarrow>
         \<exists>sp ep. isWholeWord e (Some sp) ep = Inr True \<and> rangeBetweenPositions r sp ep = Inr r'"
proof (induction k arbitrary: pos scope wrapped li)
  case 0
  then show ?case by simp
next
  case (Suc k)
  from Suc.prems obtain res la where f: "findTextFromPosition e pos tm scope fo li = Inr (res, la)"
    by (auto simp: bindE_def split: sum.splits)
  show ?case
  proof (cases res)
    case None
    with Suc.prems f show ?thesis
      using Suc.IH by (auto simp: bindE_def split: if_splits sum.splits)
  next
    case (Some fr)
    note v = findTextFromPosition_valid [OF f [unfolded Some] assms]
    show ?thesis
    proof (cases "valid fr")
      case True
      with Suc.prems f Some v show ?thesis
        by (auto simp: bindE_def split: option.splits sum.splits)
    next
      case False
      with Suc.prems f Some show ?thesis using Suc.IH by (simp add: bindE_def)
    qed
  qed
qed

text \<open>
  Claim C2.  With \<^verbatim>\<open>wholeWordsOnly\<close> set, whenever \<^verbatim>\<open>findText\<close> returns
  \<^verbatim>\<open>true\<close>, \<^verbatim>\<open>expand("word")\<close> on the range it has set returns \<^verbatim>\<open>false\<close> and leaves
  the range as it is.  Every match that \<^verbatim>\<open>findTextFromPosition\<close> reports is valid exactly
  when \<^verbatim>\<open>expand("word")\<close> moves neither of its boundaries, and on a match that is not valid
  the loop of \<^verbatim>\<open>findText\<close> goes on from the end of the match (backwards: from its
  start).
\<close>

theorem whole_word_match_aligned:
  assumes "wholeWordsOnly fo"
  shows "(findText e r tm fo li = Inr (True, r', li') \<longrightarrow>
            expand e r' WORD defaultExpandOptions = Inr (r', False))
       \<and> (findTextFromPosition e pos tm' scope fo li = Inr (Some fr, la) \<longrightarrow>
            isWholeWord e (resultStartPos fr) (resultEndPos fr) = Inr (valid fr)
            \<and> (\<not> valid fr \<longrightarrow>
                 findTextLoop (Suc k) e r tm' fo ip pos scope wrapped li
                 = findTextLoop k e r tm' fo ip
                     (if isDirectionBackward (direction fo) then resultStartPos fr
                      else Some (resultEndPos fr))
                     scope wrapped la))"
proof (intro conjI impI)
  assume "findText e r tm fo li = Inr (True, r', li')"
  then obtain ip pos scope where
    "findTextLoop (fuel e) e r (prepareSearchTerm tm fo) fo ip pos scope False li = Inr (True, r', li')"
    by (auto simp: findText_def bindE_def Let_def split: sum.splits)
  from findTextLoop_found [OF assms this] obtain sp ep where
    w: "isWholeWord e (Some sp) ep = Inr True" and rb: "rangeBetweenPositions r sp ep = Inr r'"
    by blast
  from isWholeWord_expand [OF w] obtain r0 where
    r0: "rangeBetweenPositions createRange sp ep = Inr r0"
    and ex: "expand e r0 WORD defaultExpandOptions = Inr (r0, False)" by auto
  have "r0 = r'" using r0 rb rangeBetweenPositions_any [of createRange sp ep r] by simp
  with ex show "expand e r' WORD defaultExpandOptions = Inr (r', False)" by simp
next
  assume f: "findTextFromPosition e pos tm' scope fo li = Inr (Some fr, la)"
  show "isWholeWord e (resultStartPos fr) (resultEndPos fr) = Inr (valid fr)"
    by (rule findTextFromPosition_valid [OF f assms])
next
  assume f: "findTextFromPosition e pos tm' scope fo li = Inr (Some fr, la)"
    and "\<not> valid fr"
  then show "findTextLoop (Suc k) e r tm' fo ip pos scope wrapped li
                 = findTextLoop k e r tm' fo ip
                     (if isDirectionBackward (direction fo) then resultStartPos fr
                      else Some (resultEndPos fr))
                     scope wrapped la"
    by (simp add: bindE_def)
qed

theorem whole_word_match_aligned_witness:
  "wholeWordsOnly (defaultFindOptions\<lparr>wholeWordsOnly := True\<rparr>)
   \<and> findText (exampleEnv catDoc) createRange (StringTerm ''cat'')
        (defaultFindOptions\<lparr>wholeWordsOnly := True\<rparr>) 0 = Inr (True, lastCat, 0)
   \<and> expand (exampleEnv catDoc) lastCat WORD defaultExpandOptions = Inr (lastCat, False)"
proof -
  let ?fo = "defaultFindOptions\<lparr>wholeWordsOnly := True\<rparr>"
  have w: "wholeWordsOnly ?fo" by simp
  have a: "findText (exampleEnv catDoc) createRange (StringTerm ''cat'') ?fo 0 = Inr (True, lastCat, 0)"
    by code_simp
  from whole_word_match_aligned [OF w, of "exampleEnv catDoc" createRange "StringTerm ''cat''" 0 lastCat 0] a
  have "expand (exampleEnv catDoc) lastCat WORD defaultExpandOptions = Inr (lastCat, False)" by simp
  with w a show ?thesis by simp
qed

section \<open>The default tokenizer partitions its input\<close>

lemma tiles_append: "tiles (xs @ ys) a c = (\<exists>b. tiles xs a b \<and> tiles ys b c)"
  by (induction xs arbitrary: a) auto

lemma tiles_le: "tiles rs a b \<Longrightarrow> a \<le> b"
proof (induction rs arbitrary: a)
  case Nil
  then show ?case by simp
next
  case (Cons r rs)
  then have "a < rangeEnd r" "rangeEnd r \<le> b" by auto
  then show ?case by simp
qed

lemma tiles_bounds:
  "tiles rs a b \<Longrightarrow> j < length rs \<Longrightarrow> a \<le> rangeStart (rs ! j) \<and> rangeEnd (rs ! j) \<le> b"
proof (induction rs arbitrary: a j)
  case Nil
  then show ?case by simp
next
  case (Cons r rs)
  show ?case
  proof (cases j)
    case 0
    with Cons.prems show ?thesis using tiles_le [of rs "rangeEnd r" b] by simp
  next
    case (Suc m)
    with Cons.prems have "rangeEnd r \<le> rangeStart (rs ! m) \<and> rangeEnd (rs ! m) \<le> b"
      using Cons.IH [of "rangeEnd r" m] by simp
    with Cons.prems Suc show ?thesis by simp
  qed
qed

lemma tiles_slices:
  "tiles rs a b \<Longrightarrow> concat (map (\<lambda>r. slice cs (rangeStart r) (rangeEnd r)) rs) = slice cs a b"
proof (induction rs arbitrary: a)
  case Nil
  then show ?case by (simp add: slice_def)
next
  case (Cons r rs)
  then have le: "a < rangeEnd r" "rangeEnd r \<le> b" and st: "rangeStart r = a"
    using tiles_le [of rs "rangeEnd r" b] by auto
  have "slice cs a (rangeEnd r) @ slice cs (rangeEnd r) b = slice cs a b"
  proof -
    have eq: "b - a = (rangeEnd r - a) + (b - rangeEnd r)" using le by arith
    have dd: "drop (rangeEnd r - a) (drop a cs) = drop (rangeEnd r) cs" using le by simp
    show ?thesis unfolding slice_def eq take_add dd ..
  qed
  moreover have "concat (map (\<lambda>r. slice cs (rangeStart r) (rangeEnd r)) rs) = slice cs (rangeEnd r) b"
    using Cons.IH [of "rangeEnd r"] Cons.prems by simp
  ultimately show ?case using st by simp
qed

lemma single_word:
  "\<forall>c\<in>set cs. length (character c) = 1 \<Longrightarrow> concat (map character cs) = map (\<lambda>c. hd (character c)) cs"
proof (induction cs)
  case Nil
  then show ?case by simp
next
  case (Cons c cs)
  then have "length (character c) = 1" by simp
  then have "character c = [hd (character c)]" by (cases "character c") auto
  with Cons show ?case by simp
qed

lemma single_test:
  assumes "\<forall>c\<in>set cs. length (character c) = 1" and "j < length cs"
  shows "nonLineBreakWhiteSpaceRegex (character (cs ! j))
         = nonLineBreakWhiteSpaceChar (concat (map character cs) ! j)"
proof -
  have "length (character (cs ! j)) = 1" using assms by simp
  then have "character (cs ! j) = [hd (character (cs ! j))]" by (cases "character (cs ! j)") auto
  moreover have "nonLineBreakWhiteSpaceRegex [hd (character (cs ! j))]
      = nonLineBreakWhiteSpaceChar (hd (character (cs ! j)))"
    by (simp add: nonLineBreakWhiteSpaceRegex_def testAll_def)
  ultimately have "nonLineBreakWhiteSpaceRegex (character (cs ! j)) = nonLineBreakWhiteSpaceChar (hd (character (cs ! j)))"
    by simp
  then show ?thesis using assms by (simp add: single_word)
qed

lemma trailingSpaceEnd_bounds:
  assumes "w \<le> length cs"
  shows "w \<le> trailingSpaceEnd cs w \<and> trailingSpaceEnd cs w \<le> length cs
         \<and> (\<forall>j. w \<le> j \<and> j < trailingSpaceEnd cs w \<longrightarrow> nonLineBreakWhiteSpaceRegex (character (cs ! j)))"
proof -
  let ?P = "\<lambda>c. nonLineBreakWhiteSpaceRegex (character c)"
  let ?t = "takeWhile ?P (drop w cs)"
  have len: "length ?t \<le> length cs - w"
    using length_takeWhile_le [of ?P "drop w cs"] by simp
  have "\<And>j. w \<le> j \<Longrightarrow> j < w + length ?t \<Longrightarrow> ?P (cs ! j)"
  proof -
    fix j assume a: "w \<le> j" "j < w + length ?t"
    then have lt: "j - w < length ?t" by arith
    then have "?t ! (j - w) \<in> set ?t" by simp
    then have "?P (?t ! (j - w))" using set_takeWhileD by metis
    moreover have "?t ! (j - w) = drop w cs ! (j - w)" using lt by (rule takeWhile_nth)
    moreover have "drop w cs ! (j - w) = cs ! j" using a assms by simp
    ultimately show "?P (cs ! j)" by simp
  qed
  then show ?thesis using len assms by (auto simp: trailingSpaceEnd_def)
qed

lemma tokenLoop_tiles:
  assumes glob: "global (wordRegex wo)"
    and sane: "\<And>s i k n. matchFrom (wordRegex wo) s i = Some (k, n) \<Longrightarrow>
       i \<le> k \<and> 0 < n \<and> k + n \<le> length s
       \<and> (includeTrailingSpace wo \<longrightarrow> \<not> nonLineBreakWhiteSpaceChar (s ! k))"
    and single: "\<forall>c\<in>set cs. length (character c) = 1"
    and word: "word = concat (map character cs)"
  shows "tiles acc 0 lwe \<Longrightarrow> li \<le> lwe \<Longrightarrow> lwe \<le> length cs \<Longrightarrow>
   (\<forall>j. li \<le> j \<and> j < lwe \<longrightarrow> includeTrailingSpace wo \<and> nonLineBreakWhiteSpaceChar (word ! j)) \<Longrightarrow>
   \<exists>acc' lwe'. tokenLoop wo cs word li lwe acc = Some (acc', lwe') \<and> tiles acc' 0 lwe'
      \<and> lwe' \<le> length cs"
proof (induction "length word - li" arbitrary: li lwe acc rule: less_induct)
  case less
  have wlen: "length word = length cs"
    using single word by (simp add: single_word)
  show ?case
  proof (cases "regexExec (wordRegex wo) word li")
    case None
    then show ?thesis using less.prems by (subst tokenLoop.simps) simp
  next
    case (Some m)
    obtain k n where m: "m = (k, n)" by (cases m)
    have mf: "matchFrom (wordRegex wo) word li = Some (k, n)"
      using Some m glob by (simp add: regexExec_def)
    from sane [OF mf] have k: "li \<le> k" "0 < n" "k + n \<le> length word"
      and nws: "includeTrailingSpace wo \<longrightarrow> \<not> nonLineBreakWhiteSpaceChar (word ! k)" by auto
    have klwe: "lwe \<le> k"
    proof (rule ccontr)
      assume "\<not> lwe \<le> k"
      then have "li \<le> k \<and> k < lwe" using k by simp
      then show False using less.prems(4) nws by blast
    qed
    define wordEnd where "wordEnd = (if includeTrailingSpace wo then trailingSpaceEnd cs (k + n) else k + n)"
    define acc1 where "acc1 = (if k > lwe then acc @ [TokenRange lwe k False] else acc)"
    define acc2 where "acc2 = acc1 @ [TokenRange k wordEnd True]"
    have kn: "k + n \<le> length cs" using k wlen by simp
    have we: "k + n \<le> wordEnd" "wordEnd \<le> length cs"
      using trailingSpaceEnd_bounds [OF kn] kn by (auto simp: wordEnd_def)
    have ws: "\<forall>j. k + n \<le> j \<and> j < wordEnd \<longrightarrow> includeTrailingSpace wo \<and> nonLineBreakWhiteSpaceChar (word ! j)"
    proof (intro allI impI)
      fix j assume a: "k + n \<le> j \<and> j < wordEnd"
      then have inc: "includeTrailingSpace wo" by (auto simp: wordEnd_def split: if_splits)
      then have "nonLineBreakWhiteSpaceRegex (character (cs ! j))"
        using trailingSpaceEnd_bounds [OF kn] a by (auto simp: wordEnd_def)
      moreover have "j < length cs" using a we by simp
      ultimately have "nonLineBreakWhiteSpaceChar (word ! j)"
        using single_test [OF single, of j] word by simp
      with inc show "includeTrailingSpace wo \<and> nonLineBreakWhiteSpaceChar (word ! j)" by simp
    qed
    have t1: "tiles acc1 0 k"
      using less.prems(1) klwe by (auto simp: acc1_def tiles_append)
    have t2: "tiles acc2 0 wordEnd"
      using t1 we k by (auto simp: acc2_def tiles_append)
    have adv: "li < k + n \<and> k + n \<le> length word" using k by simp
    have step: "tokenLoop wo cs word li lwe acc = tokenLoop wo cs word (k + n) wordEnd acc2"
      using Some m adv glob
      by (subst tokenLoop.simps) (simp add: Let_def acc2_def acc1_def wordEnd_def)
    have "length word - (k + n) < length word - li" using adv by arith
    from less.hyps [OF this t2 we(1) we(2) ws]
    show ?thesis using step by simp
  qed
qed

lemma tiles_unique:
  "tiles rs a b \<Longrightarrow> a \<le> k \<Longrightarrow> k < b \<Longrightarrow>
   \<exists>!j. j < length rs \<and> rangeStart (rs ! j) \<le> k \<and> k < rangeEnd (rs ! j)"
proof (induction rs arbitrary: a)
  case Nil
  then show ?case by simp
next
  case (Cons r rs)
  then have r: "rangeStart r = a" "tiles rs (rangeEnd r) b" by auto
  show ?case
  proof (cases "k < rangeEnd r")
    case True
    have "\<And>j. j < length (r # rs) \<Longrightarrow> rangeStart ((r # rs) ! j) \<le> k \<Longrightarrow> j = 0"
    proof (rule ccontr)
      fix j assume a: "j < length (r # rs)" "rangeStart ((r # rs) ! j) \<le> k" "j \<noteq> 0"
      then obtain m where m: "j = Suc m" by (cases j) auto
      then have "rangeEnd r \<le> rangeStart (rs ! m)" using tiles_bounds [OF r(2), of m] a by simp
      then show False using a m True by simp
    qed
    moreover have "0 < length (r # rs) \<and> rangeStart ((r # rs) ! 0) \<le> k \<and> k < rangeEnd ((r # rs) ! 0)"
      using True r Cons.prems by simp
    ultimately show ?thesis by (intro ex1I [of _ 0]) auto
  next
    case False
    then have "\<exists>!j. j < length rs \<and> rangeStart (rs ! j) \<le> k \<and> k < rangeEnd (rs ! j)"
      using Cons.IH [OF r(2)] Cons.prems by simp
    then obtain m where m: "m < length rs \<and> rangeStart (rs ! m) \<le> k \<and> k < rangeEnd (rs ! m)"
      and u: "\<And>j. j < length rs \<and> rangeStart (rs ! j) \<le> k \<and> k < rangeEnd (rs ! j) \<Longrightarrow> j = m"
      by auto
    show ?thesis
    proof (intro ex1I [of _ "Suc m"])
      show "Suc m < length (r # rs) \<and> rangeStart ((r # rs) ! Suc m) \<le> k \<and> k < rangeEnd ((r # rs) ! Suc m)"
        using m by simp
    next
      fix j assume a: "j < length (r # rs) \<and> rangeStart ((r # rs) ! j) \<le> k \<and> k < rangeEnd ((r # rs) ! j)"
      show "j = Suc m"
      proof (cases j)
        case 0
        then show ?thesis using a False by simp
      next
        case (Suc i)
        then show ?thesis using a u [of i] by simp
      qed
    qed
  qed
qed

lemma findFrom_Some:
  "findFrom P s i = Some k \<Longrightarrow> i \<le> k \<and> k < length s \<and> P (s ! k)"
proof -
  assume a: "findFrom P s i = Some k"
  let ?t = "takeWhile (\<lambda>c. \<not> P c) (drop i s)"
  from a have k: "k = i + length ?t" "k < length s"
    by (auto simp: findFrom_def Let_def split: if_splits)
  then have "length ?t < length (drop i s)" by simp
  then have "\<not> \<not> P (drop i s ! length ?t)" by (rule nth_length_takeWhile)
  moreover have "drop i s ! length ?t = s ! k" using k by simp
  ultimately show ?thesis using k by simp
qed

lemma wordLength_le: "wordLength s \<le> length s"
  by (induction s) auto

lemma defaultWordMatch_Some:
  assumes "defaultWordMatch s i = Some (k, n)"
  shows "i \<le> k \<and> 0 < n \<and> k + n \<le> length s \<and> alnumChar (s ! k)"
proof -
  from assms have f: "findFrom alnumChar s i = Some k" and n: "n = wordLength (drop k s)"
    by (auto simp: defaultWordMatch_def split: option.splits)
  from findFrom_Some [OF f] have k: "i \<le> k" "k < length s" "alnumChar (s ! k)" by auto
  then obtain c cs where d: "drop k s = c # cs" and c: "c = s ! k"
    by (metis Cons_nth_drop_Suc)
  have "0 < n" using n d c k by simp
  moreover have "n \<le> length s - k" using wordLength_le [of "drop k s"] n by simp
  ultimately show ?thesis using k by simp
qed

lemma alnum_not_space: "alnumChar c \<Longrightarrow> \<not> nonLineBreakWhiteSpaceChar c"
  by (auto simp: alnumChar_def nonLineBreakWhiteSpaceChar_def)

text \<open>
  Claim C3, as the code has it.  For characters of one code unit each (what the character
  iterator delivers) and word options whose expression is global, matches non-empty
  strings only and, when \<^verbatim>\<open>includeTrailingSpace\<close> is set, never starts a match at a
  non-line-break white-space character (the default expression is one), the tokenizer
  returns, the characters of its tokens in order are the input, and every index of the
  input lies in exactly one token's range.
\<close>

theorem tokenizer_partition:
  assumes "global (wordRegex wo)"
    and "\<And>s i k n. matchFrom (wordRegex wo) s i = Some (k, n) \<Longrightarrow>
       i \<le> k \<and> 0 < n \<and> k + n \<le> length s
       \<and> (includeTrailingSpace wo \<longrightarrow> \<not> nonLineBreakWhiteSpaceChar (s ! k))"
    and "\<forall>c\<in>set cs. length (character c) = 1"
  shows "\<exists>rs toks. tokenRanges cs wo = Some rs \<and> defaultTokenizer cs wo = Some toks
           \<and> concat (map chars toks) = cs
           \<and> (\<forall>k<length cs. \<exists>!j. j < length rs \<and> rangeStart (rs ! j) \<le> k \<and> k < rangeEnd (rs ! j))"
proof -
  have "\<exists>acc' lwe'. tokenLoop wo cs (concat (map character cs)) 0 0 [] = Some (acc', lwe')
          \<and> tiles acc' 0 lwe' \<and> lwe' \<le> length cs"
    by (rule tokenLoop_tiles [OF assms refl]) auto
  then obtain acc lwe where l: "tokenLoop wo cs (concat (map character cs)) 0 0 [] = Some (acc, lwe)"
    and t: "tiles acc 0 lwe" and le: "lwe \<le> length cs" by blast
  define rs where "rs = (if lwe < length cs then acc @ [TokenRange lwe (length cs) False] else acc)"
  have rs: "tokenRanges cs wo = Some rs" using l by (simp add: tokenRanges_def rs_def)
  have trs: "tiles rs 0 (length cs)" using t le by (auto simp: rs_def tiles_append)
  have "concat (map chars (map (createTokenFromRange cs) rs)) = slice cs 0 (length cs)"
    using tiles_slices [OF trs, of cs] by (simp add: createTokenFromRange_def comp_def)
  then have c: "concat (map chars (map (createTokenFromRange cs) rs)) = cs" by (simp add: slice_def)
  have u: "\<forall>k<length cs. \<exists>!j. j < length rs \<and> rangeStart (rs ! j) \<le> k \<and> k < rangeEnd (rs ! j)"
    using tiles_unique [OF trs] by simp
  show ?thesis using rs c u by (simp add: defaultTokenizer_def)
qed

theorem tokenizer_partition_witness:
  "\<exists>toks. defaultTokenizer (exampleChars ''it's a  b!'') (defaultWordOptions\<lparr>includeTrailingSpace := True\<rparr>) = Some toks
       \<and> concat (map chars toks) = exampleChars ''it's a  b!''"
proof -
  let ?wo = "defaultWordOptions\<lparr>includeTrailingSpace := True\<rparr>"
  have g: "global (wordRegex ?wo)" by (simp add: defaultWordOptions_def defaultWordRegex_def)
  have s: "\<And>s i k n. matchFrom (wordRegex ?wo) s i = Some (k, n) \<Longrightarrow>
       i \<le> k \<and> 0 < n \<and> k + n \<le> length s
       \<and> (includeTrailingSpace ?wo \<longrightarrow> \<not> nonLineBreakWhiteSpaceChar (s ! k))"
    using defaultWordMatch_Some alnum_not_space
    by (simp add: defaultWordOptions_def defaultWordRegex_def)
  have c: "\<forall>c\<in>set (exampleChars ''it's a  b!''). length (character c) = 1"
    by (simp add: exampleChars_def)
  show ?thesis using tokenizer_partition [OF g s c] by blast
qed

text \<open>
  With \<^verbatim>\<open>wordRegex: /\s*[a-z0-9]+/gi\<close> and \<^verbatim>\<open>includeTrailingSpace: true\<close>, the
  input \<^verbatim>\<open>"a b"\<close> gives the tokens \<^verbatim>\<open>"a "\<close> and \<^verbatim>\<open>" b"\<close>: the space is in both,
  and the tokens' characters are not the input.
\<close>

theorem tokenizer_overlap_counterexample:
  "map_option (\<lambda>toks. (map (\<lambda>t. concat (map character (chars t))) toks,
                          concat (map chars toks) = exampleChars ''a b''))
     (defaultTokenizer (exampleChars ''a b'')
        \<lparr>wordRegex = spacedWordRegex, includeTrailingSpace = True\<rparr>)
   = Some ([''a '', '' b''], False)"
  by code_simp

section \<open>A step forward and a step back\<close>

lemma getNode_append:
  "getNode d (p @ [i]) =
     (case getNode d p of
        None \<Rightarrow> None
      | Some n \<Rightarrow> if i < length (childNodes n) then Some (childNodes n ! i) else None)"
  by (induction p arbitrary: d) auto

lemma nodeAt_parent:
  assumes "nodeAt e p = Inr n" and "p \<noteq> []"
  shows "\<exists>pn. nodeAt e (butlast p) = Inr pn \<and> last p < length (childNodes pn)
              \<and> childNodes pn ! last p = n"
proof -
  from assms(2) have p: "p = butlast p @ [last p]" by simp
  from assms(1) have "getNode (doc e) (butlast p @ [last p]) = Some n"
    using p by (auto simp: nodeAt_def split: option.splits)
  then show ?thesis
    by (auto simp: getNode_append nodeAt_def split: option.splits if_splits)
qed

lemma nodeAt_child:
  assumes "nodeAt e p = Inr n" and "i < length (childNodes n)"
  shows "nodeAt e (p @ [i]) = Inr (childNodes n ! i)"
  using assms by (auto simp: nodeAt_def getNode_append split: option.splits)

lemma has_children_not_character_data:
  "i < length (childNodes n) \<Longrightarrow> \<not> isCharacterDataNode n \<and> getNodeLength n = length (childNodes n)"
  by (cases n) (auto simp: isCharacterDataNode_def)

lemma back_over_node:
  assumes pn: "nodeAt e pp = Inr pn" and i: "i < length (childNodes pn)"
    and c: "isCollapsedNode e (Some (pp @ [i])) = Inr c"
    and par: "\<not> containsPositions (childNodes pn ! i) \<longrightarrow> isCollapsedNode e (Some pp) = Inr False"
  shows "previousVisiblePosition e (Some (DomPosition (Some pp) (i + 1)))
         = Inr (Some (if containsPositions (childNodes pn ! i) \<and> \<not> c
                      then DomPosition (Some (pp @ [i])) (getNodeLength (childNodes pn ! i))
                      else DomPosition (Some pp) i))"
  using pn i c par has_children_not_character_data [OF i]
  by (simp add: previousVisiblePosition_def previousPosition_def bindE_def Let_def
      parentNode_def getNodeIndex_def)

lemma before_ancestor:
  assumes "k < length p"
  shows "comparePoints (take k p) (p ! k) p off = - 1"
proof -
  have "take k p \<noteq> p" using assms by (metis length_take min.absorb2 less_imp_le_nat nat_neq_iff)
  moreover have "properPrefix (take k p) p" using assms by (simp add: properPrefix_def)
  ultimately show ?thesis using assms by (simp add: comparePoints_def)
qed

lemma before_node:
  assumes "p \<noteq> []"
  shows "comparePoints (butlast p) (last p) p off = - 1"
  using before_ancestor [of "length p - 1" p off] assms
  by (simp add: butlast_conv_take last_conv_nth)

lemma before_parent:
  assumes "p \<noteq> []" and "butlast p \<noteq> []"
  shows "comparePoints (butlast (butlast p)) (last (butlast p)) p off = - 1"
proof -
  have l: "2 \<le> length p" using assms by (cases p rule: rev_cases) (auto simp: Suc_le_eq)
  then have "last (butlast p) = p ! (length p - 2)"
    using assms by (simp add: last_conv_nth nth_butlast numeral_2_eq_2)
  moreover have "butlast (butlast p) = take (length p - 2) p"
    by (simp add: butlast_conv_take numeral_2_eq_2)
  ultimately show ?thesis using before_ancestor [of "length p - 2" p off] l by simp
qed

text \<open>
  Claim C4, as the code has it.  Let \<open>p\<close> be a position in a node \<open>n\<close>, and let
  \<^verbatim>\<open>nextVisiblePosition(p)\<close> be a position.  Two cases are left out: \<open>p\<close> is the last
  position of \<open>n\<close> and both the parent of \<open>n\<close> and the parent of that parent are collapsed
  (or the collapsed parent has no parent); and \<open>n\<close> is collapsed, its parent is collapsed too
  (or \<open>n\<close> has none) and the step forward from \<open>p\<close> leaves \<open>n\<close>, which it does unless it skips
  a collapsed child of \<open>n\<close>.  Then \<^verbatim>\<open>previousVisiblePosition\<close> of that position is

  \<^item> \<open>p\<close> itself, when \<open>n\<close> is not collapsed and \<open>p\<close> is not its last position, or is its last
    position with \<open>n\<close> a node that can contain positions in a parent that is not collapsed,
    and when the step forward skips a collapsed child of \<open>n\<close>;
  \<^item> the position just before \<open>n\<close> in its parent, when \<open>n\<close> is collapsed or cannot contain
    positions: the parent is not collapsed and the position is before \<open>p\<close> in document
    order;
  \<^item> the position just before the parent of \<open>n\<close>, when \<open>p\<close> is the last position of \<open>n\<close> and
    that parent is collapsed: its own parent is not collapsed and the position is before \<open>p\<close>.
\<close>

theorem visible_position_round_trip:
  assumes n: "nodeAt e p = Inr n"
    and off: "off \<le> getNodeLength n"
    and vis: "isCollapsedNode e (Some p) = Inr c"
    and atEnd: "off = getNodeLength n \<longrightarrow> p \<noteq> [] \<longrightarrow> isCollapsedNode e (Some (butlast p)) = Inr True \<longrightarrow>
       butlast p \<noteq> [] \<and> isCollapsedNode e (Some (butlast (butlast p))) = Inr False"
    and inner: "c \<longrightarrow> off < getNodeLength n \<longrightarrow>
       \<not> (off < length (childNodes n) \<and> containsPositions (childNodes n ! off)
           \<and> isCollapsedNode e (Some (p @ [off])) = Inr True) \<longrightarrow>
       p \<noteq> [] \<and> isCollapsedNode e (Some (butlast p)) = Inr False"
    and nx: "nextVisiblePosition e (DomPosition (Some p) off) = Inr (Some q)"
  shows "\<exists>r. previousVisiblePosition e (Some q) = Inr (Some r)
           \<and> (r = DomPosition (Some p) off
                \<or> (c \<or> \<not> containsPositions n) \<and> p \<noteq> []
                  \<and> r = DomPosition (Some (butlast p)) (last p)
                  \<and> isCollapsedNode e (Some (butlast p)) = Inr False
                  \<and> comparePoints (butlast p) (last p) p off = - 1
                \<or> off = getNodeLength n \<and> p \<noteq> [] \<and> butlast p \<noteq> []
                  \<and> isCollapsedNode e (Some (butlast p)) = Inr True
                  \<and> r = DomPosition (Some (butlast (butlast p))) (last (butlast p))
                  \<and> isCollapsedNode e (Some (butlast (butlast p))) = Inr False
                  \<and> comparePoints (butlast (butlast p)) (last (butlast p)) p off = - 1)
           \<and> (\<not> c \<and> (off < getNodeLength n
                        \<or> containsPositions n
                          \<and> (p \<noteq> [] \<longrightarrow> isCollapsedNode e (Some (butlast p)) = Inr False))
                \<or> off < length (childNodes n) \<and> containsPositions (childNodes n ! off)
                  \<and> isCollapsedNode e (Some (p @ [off])) = Inr True
                \<longrightarrow> r = DomPosition (Some p) off)
           \<and> (c \<and> off < getNodeLength n
                  \<and> \<not> (off < length (childNodes n) \<and> containsPositions (childNodes n ! off)
                         \<and> isCollapsedNode e (Some (p @ [off])) = Inr True)
                \<or> off = getNodeLength n \<and> (c \<or> \<not> containsPositions n)
                  \<and> isCollapsedNode e (Some (butlast p)) = Inr False
                \<longrightarrow> r = DomPosition (Some (butlast p)) (last p))
           \<and> (off = getNodeLength n \<and> isCollapsedNode e (Some (butlast p)) = Inr True
                \<longrightarrow> r = DomPosition (Some (butlast (butlast p))) (last (butlast p)))"
proof -
  have behind: "?thesis"
    if ne: "p \<noteq> []" and pc: "isCollapsedNode e (Some (butlast p)) = Inr False"
      and q: "q = DomPosition (Some (butlast p)) (last p + 1)"
      and cl: "c \<or> off = getNodeLength n"
      and ns: "\<not> (off < length (childNodes n) \<and> containsPositions (childNodes n ! off)
           \<and> isCollapsedNode e (Some (p @ [off])) = Inr True)"
  proof -
    from nodeAt_parent [OF n ne] obtain pn where pn: "nodeAt e (butlast p) = Inr pn"
      and i: "last p < length (childNodes pn)" and ch: "childNodes pn ! last p = n" by blast
    have bl: "butlast p @ [last p] = p" using ne by simp
    have "previousVisiblePosition e (Some q)
          = Inr (Some (if containsPositions n \<and> \<not> c then DomPosition (Some p) (getNodeLength n)
                       else DomPosition (Some (butlast p)) (last p)))"
      using back_over_node [OF pn i, of c] vis pc bl ch q by simp
    then show ?thesis using cl pc ne ns before_node [OF ne, of off] by auto
  qed
  show ?thesis
  proof (cases "off = getNodeLength n")
    case True
    then have ns: "\<not> (off < length (childNodes n) \<and> containsPositions (childNodes n ! off)
           \<and> isCollapsedNode e (Some (p @ [off])) = Inr True)"
      by (cases n) auto
    show ?thesis
    proof (cases "p = []")
      case True
      with \<open>off = getNodeLength n\<close> n nx show ?thesis
        by (simp add: nextVisiblePosition_def nextPosition_def bindE_def parentNode_def)
    next
      case False
      from nx n True False obtain pc where pc: "isCollapsedNode e (Some (butlast p)) = Inr pc"
        by (auto simp: nextVisiblePosition_def nextPosition_def bindE_def parentNode_def
            split: sum.splits)
      show ?thesis
      proof (cases pc)
        case pcF: False
        have q: "q = DomPosition (Some (butlast p)) (last p + 1)"
          using nx n True False pc pcF
          by (simp add: nextVisiblePosition_def nextPosition_def bindE_def parentNode_def getNodeIndex_def)
        show ?thesis by (rule behind [OF False _ q _ ns]) (use pc pcF True in simp_all)
      next
        case pcT: True
        from atEnd \<open>off = getNodeLength n\<close> False pc pcT
        have ne2: "butlast p \<noteq> []" and gc: "isCollapsedNode e (Some (butlast (butlast p))) = Inr False"
          by simp_all
        have q: "q = DomPosition (Some (butlast (butlast p))) (last (butlast p) + 1)"
          using nx n \<open>off = getNodeLength n\<close> False pc pcT ne2
          by (simp add: nextVisiblePosition_def nextPosition_def bindE_def parentNode_def getNodeIndex_def)
        from nodeAt_parent [OF n False] obtain pn where pn: "nodeAt e (butlast p) = Inr pn" by blast
        from nodeAt_parent [OF pn ne2] obtain gn where gn: "nodeAt e (butlast (butlast p)) = Inr gn"
          and j: "last (butlast p) < length (childNodes gn)" by blast
        have bl: "butlast (butlast p) @ [last (butlast p)] = butlast p" using ne2 by simp
        have "previousVisiblePosition e (Some q)
              = Inr (Some (DomPosition (Some (butlast (butlast p))) (last (butlast p))))"
          using back_over_node [OF gn j, of True] pc pcT gc bl q by simp
        then show ?thesis
          using \<open>off = getNodeLength n\<close> False ne2 pc pcT gc ns before_parent [OF False ne2, of off]
          by auto
      qed
    qed
  next
    case False
    with off have lt: "off < getNodeLength n" by simp
    have leave: "?thesis" if c and q: "q = DomPosition (parentNode p) (getNodeIndex p + 1)"
      and ns: "\<not> (off < length (childNodes n) \<and> containsPositions (childNodes n ! off)
           \<and> isCollapsedNode e (Some (p @ [off])) = Inr True)"
    proof -
      from inner \<open>c\<close> lt ns have ne: "p \<noteq> []" and pc: "isCollapsedNode e (Some (butlast p)) = Inr False"
        by simp_all
      have "q = DomPosition (Some (butlast p)) (last p + 1)"
        using q ne by (simp add: parentNode_def getNodeIndex_def)
      from behind [OF ne pc this _ ns] \<open>c\<close> show ?thesis by simp
    qed
    show ?thesis
    proof (cases "isCharacterDataNode n")
      case True
      then have ns: "\<not> (off < length (childNodes n) \<and> containsPositions (childNodes n ! off)
           \<and> isCollapsedNode e (Some (p @ [off])) = Inr True)"
        by (cases n) (auto simp: isCharacterDataNode_def)
      show ?thesis
      proof (cases c)
        case True
        have "q = DomPosition (parentNode p) (getNodeIndex p + 1)"
          using nx n lt vis True \<open>isCharacterDataNode n\<close>
          by (simp add: nextVisiblePosition_def nextPosition_def bindE_def)
        from leave [OF True this ns] show ?thesis .
      next
        case False
        have q: "q = DomPosition (Some p) (off + 1)"
          using nx n lt vis False \<open>isCharacterDataNode n\<close>
          by (simp add: nextVisiblePosition_def nextPosition_def bindE_def)
        show ?thesis using lt q n \<open>isCharacterDataNode n\<close> vis False
          by (simp add: previousVisiblePosition_def previousPosition_def bindE_def)
      qed
    next
      case nc: False
      then have len: "getNodeLength n = length (childNodes n)"
        by (cases n) (auto simp: isCharacterDataNode_def)
      with lt have i: "off < length (childNodes n)" by simp
      note ch = nodeAt_child [OF n i]
      show ?thesis
      proof (cases "containsPositions (childNodes n ! off)")
        case True
        from nx n lt nc i True obtain cc where cc: "isCollapsedNode e (Some (p @ [off])) = Inr cc"
          by (auto simp: nextVisiblePosition_def nextPosition_def bindE_def split: sum.splits)
        show ?thesis
        proof (cases cc)
          case True
          then have q: "q = DomPosition (Some p) (off + 1)"
            using nx n lt nc i \<open>containsPositions (childNodes n ! off)\<close> cc
            by (simp add: nextVisiblePosition_def nextPosition_def bindE_def parentNode_def getNodeIndex_def)
          show ?thesis using lt q n nc i \<open>containsPositions (childNodes n ! off)\<close> cc True
            by (simp add: previousVisiblePosition_def previousPosition_def bindE_def Let_def
                parentNode_def getNodeIndex_def)
        next
          case False
          then have q: "q = DomPosition (Some (p @ [off])) 0"
            using nx n lt nc i \<open>containsPositions (childNodes n ! off)\<close> cc
            by (simp add: nextVisiblePosition_def nextPosition_def bindE_def)
          show ?thesis
          proof (cases c)
            case True
            from inner True lt cc False
            have ne: "p \<noteq> []" and pc: "isCollapsedNode e (Some (butlast p)) = Inr False" by simp_all
            show ?thesis using lt q ch vis True ne pc cc False before_node [OF ne, of off]
              by (simp add: previousVisiblePosition_def previousPosition_def bindE_def parentNode_def
                  getNodeIndex_def)
          next
            case cF: False
            show ?thesis using lt q ch vis cF
              by (simp add: previousVisiblePosition_def previousPosition_def bindE_def parentNode_def
                  getNodeIndex_def)
          qed
        qed
      next
        case False
        show ?thesis
        proof (cases c)
          case True
          have "q = DomPosition (parentNode p) (getNodeIndex p + 1)"
            using nx n lt nc i vis True False
            by (simp add: nextVisiblePosition_def nextPosition_def bindE_def)
          from leave [OF True this] False show ?thesis by simp
        next
          case nc2: False
          have q: "q = DomPosition (Some p) (off + 1)"
            using nx n lt nc i vis False nc2
            by (simp add: nextVisiblePosition_def nextPosition_def bindE_def)
          show ?thesis using lt q n nc i False vis nc2
            by (simp add: previousVisiblePosition_def previousPosition_def bindE_def Let_def)
        qed
      qed
    qed
  qed
qed

text \<open>
  In \<^verbatim>\<open><body><div style="display: none"><span>x</span></div>y</body>\<close>, from the start of
  the text \<^verbatim>\<open>x\<close>: the step forward leads to the end of the \<^verbatim>\<open>span\<close>, the step back to the
  start of the \<^verbatim>\<open>span\<close>.  That is not the position the steps started from, and it is no
  visible position either: the \<^verbatim>\<open>span\<close> is a collapsed node.
\<close>

theorem hidden_position_counterexample:
  "bindE (nextVisiblePosition (exampleEnv hiddenDoc) insideHidden) (\<lambda>q.
   bindE (previousVisiblePosition (exampleEnv hiddenDoc) q) (\<lambda>r.
   bindE (isCollapsedNode (exampleEnv hiddenDoc) (case r of None \<Rightarrow> None | Some rp \<Rightarrow> node rp)) (\<lambda>c.
     Inr (q, r, r = Some insideHidden, c))))
   = Inr (Some (DomPosition (Some [0, 0, 0]) 1), Some (DomPosition (Some [0, 0, 0]) 0), False, True)"
  by code_simp

text \<open>
  In the same document, from the end of the text \<^verbatim>\<open>x\<close>: the step forward leads to the end
  of the hidden \<^verbatim>\<open>div\<close>, the step back to its start, again a position in a collapsed
  node that is not the position the steps started from.
\<close>

lemma hidden_text_end_position:
  "bindE (nextVisiblePosition (exampleEnv hiddenDoc) (DomPosition (Some [0, 0, 0, 0]) 1)) (\<lambda>q.
   bindE (previousVisiblePosition (exampleEnv hiddenDoc) q) (\<lambda>r.
   bindE (isCollapsedNode (exampleEnv hiddenDoc) (case r of None \<Rightarrow> None | Some rp \<Rightarrow> node rp)) (\<lambda>c.
     Inr (q, r, c))))
   = Inr (Some (DomPosition (Some [0, 0]) 1), Some (DomPosition (Some [0, 0]) 0), True)"
  by code_simp

text \<open>
  Three positions the theorem covers: the start of the \<^verbatim>\<open>body\<close> of that document, which
  the two steps come back to; the collapsed white space between the two paragraphs of
  \<^verbatim>\<open><body><p>1</p>   <p>2</p></body>\<close>, from which they lead to the position before
  the white space; and the end of the \<^verbatim>\<open>span\<close> in the hidden \<^verbatim>\<open>div\<close>, from which they
  lead to the position before the \<^verbatim>\<open>div\<close>.
\<close>

theorem visible_position_round_trip_witness:
  "nextVisiblePosition (exampleEnv hiddenDoc) (DomPosition (Some [0]) 0)
     = Inr (Some (DomPosition (Some [0]) 1))
   \<and> previousVisiblePosition (exampleEnv hiddenDoc) (Some (DomPosition (Some [0]) 1))
     = Inr (Some (DomPosition (Some [0]) 0))
   \<and> isCollapsedNode (exampleEnv spacedBlocksDoc) (Some [0, 1]) = Inr True
   \<and> nextVisiblePosition (exampleEnv spacedBlocksDoc) (DomPosition (Some [0, 1]) 1)
     = Inr (Some (DomPosition (Some [0]) 2))
   \<and> previousVisiblePosition (exampleEnv spacedBlocksDoc) (Some (DomPosition (Some [0]) 2))
     = Inr (Some (DomPosition (Some [0]) 1))
   \<and> isCollapsedNode (exampleEnv hiddenDoc) (Some [0, 0]) = Inr True
   \<and> nextVisiblePosition (exampleEnv hiddenDoc) (DomPosition (Some [0, 0, 0]) 1)
     = Inr (Some (DomPosition (Some [0]) 1))"
proof -
  let ?e = "exampleEnv hiddenDoc"
  let ?n = "Element ''body'' blockStyle
                 [Element ''div'' hiddenStyle [Element ''span'' inlineStyle [Text ''x'']],
                  Text ''y'']"
  have n: "nodeAt ?e [0] = Inr ?n" by code_simp
  have off: "0 \<le> getNodeLength ?n" by simp
  have cp: "containsPositions ?n" by code_simp
  have vis: "isCollapsedNode ?e (Some [0]) = Inr False" by code_simp
  have nx: "nextVisiblePosition ?e (DomPosition (Some [0]) 0) = Inr (Some (DomPosition (Some [0]) 1))"
    by code_simp
  have a: "previousVisiblePosition ?e (Some (DomPosition (Some [0]) 1))
     = Inr (Some (DomPosition (Some [0]) 0))"
    using visible_position_round_trip [OF n off vis _ _ nx] cp by auto
  let ?f = "exampleEnv spacedBlocksDoc"
  have n2: "nodeAt ?f [0, 1] = Inr (Text ''   '')" by code_simp
  have off2: "1 \<le> getNodeLength (Text ''   '')" by simp
  have vis2: "isCollapsedNode ?f (Some [0, 1]) = Inr True" by code_simp
  have par2: "isCollapsedNode ?f (Some [0]) = Inr False" by code_simp
  have nx2: "nextVisiblePosition ?f (DomPosition (Some [0, 1]) 1) = Inr (Some (DomPosition (Some [0]) 2))"
    by code_simp
  have b: "previousVisiblePosition ?f (Some (DomPosition (Some [0]) 2))
     = Inr (Some (DomPosition (Some [0]) 1))"
    using visible_position_round_trip [OF n2 off2 vis2 _ _ nx2] par2 by auto
  have n3: "nodeAt ?e [0, 0, 0] = Inr (Element ''span'' inlineStyle [Text ''x''])" by code_simp
  have off3: "1 \<le> getNodeLength (Element ''span'' inlineStyle [Text ''x''])" by simp
  have vis3: "isCollapsedNode ?e (Some [0, 0, 0]) = Inr True" by code_simp
  have par3: "isCollapsedNode ?e (Some [0, 0]) = Inr True" by code_simp
  have nx3: "nextVisiblePosition ?e (DomPosition (Some [0, 0, 0]) 1) = Inr (Some (DomPosition (Some [0]) 1))"
    by code_simp
  have "previousVisiblePosition ?e (Some (DomPosition (Some [0]) 1))
     = Inr (Some (DomPosition (Some [0]) 0))"
    using visible_position_round_trip [OF n3 off3 vis3 _ _ nx3] par3 vis by auto
  with a b vis2 nx nx2 par3 nx3 show ?thesis by simp
qed

section \<open>The text of a range\<close>

text \<open>
  Claim C5.  In the document \<^verbatim>\<open><div>a  b</div>\<close> with \<^verbatim>\<open>white-space: normal\<close>, the text
  of the range that selects the contents of the \<^verbatim>\<open>div\<close> is \<^verbatim>\<open>"a b"\<close>: its characters
  are \<^verbatim>\<open>a\<close>, one space and \<^verbatim>\<open>b\<close>; the character after the first space of the run is a
  space, the character after the second one is the empty string.  The same holds when the
  container is the inline \<^verbatim>\<open>span\<close> of \<^verbatim>\<open><p>x <span>a  b</span> y</p>\<close>.
\<close>

theorem double_space_collapses:
  "bindE (selectNodeContents (exampleEnv doubleSpaceDoc) [0])
     (\<lambda>r. rangeText (exampleEnv doubleSpaceDoc) r None) = Inr ''a b''
   \<and> map_sum id (map character)
        (bindE (selectNodeContents (exampleEnv doubleSpaceDoc) [0])
           (\<lambda>r. getRangeCharacters (exampleEnv doubleSpaceDoc) r defaultCharacterOptions))
      = Inr [''a'', '' '', ''b'']
   \<and> map_sum id character
        (getCharacterAt (exampleEnv doubleSpaceDoc) (DomPosition (Some [0, 0]) 2)
           defaultCharacterOptions) = Inr '' ''
   \<and> map_sum id character
        (getCharacterAt (exampleEnv doubleSpaceDoc) (DomPosition (Some [0, 0]) 3)
           defaultCharacterOptions) = Inr []
   \<and> bindE (selectNodeContents (exampleEnv nestedSpaceDoc) [0, 0, 1])
         (\<lambda>r. rangeText (exampleEnv nestedSpaceDoc) r None) = Inr ''a b''
   \<and> map_sum id character
        (getCharacterAt (exampleEnv nestedSpaceDoc) (DomPosition (Some [0, 0, 1, 0]) 2)
           defaultCharacterOptions) = Inr '' ''
   \<and> map_sum id character
        (getCharacterAt (exampleEnv nestedSpaceDoc) (DomPosition (Some [0, 0, 1, 0]) 3)
           defaultCharacterOptions) = Inr []"
  by code_simp


section \<open>Wrapping a search around\<close>













section \<open>Rewinding the character iterator\<close>

lemma stepIterator_keeps:
  "stepIterator e it = Inr (tp, it') \<Longrightarrow>
   previousTextPos it' = previousTextPos it \<and> returnPreviousTextPos it' = returnPreviousTextPos it"
  by (auto simp: stepIterator_def bindE_def split: if_splits option.splits sum.splits)

lemma nextCharacter_delivers:
  "nextCharacter k e it = Inr (Some c, it1) \<Longrightarrow>
   previousTextPos it1 = Some c \<and> returnPreviousTextPos it1 = returnPreviousTextPos it"
proof (induction k arbitrary: it)
  case 0
  then show ?case by simp
next
  case (Suc k)
  from Suc.prems obtain tp it' where s: "stepIterator e it = Inr (tp, it')"
    by (auto simp: bindE_def split: sum.splits)
  note keep = stepIterator_keeps [OF s]
  show ?case
  proof (cases tp)
    case None
    with Suc.prems s show ?thesis by (simp add: bindE_def)
  next
    case (Some textPos)
    show ?thesis
    proof (cases "character textPos \<noteq> []")
      case True
      with Suc.prems s Some keep show ?thesis by (auto simp: bindE_def)
    next
      case False
      with Suc.prems s Some have "nextCharacter k e it' = Inr (Some c, it1)" by (simp add: bindE_def)
      from Suc.IH [OF this] keep show ?thesis by simp
    qed
  qed
qed

lemma iteratorNext_delivers:
  assumes "iteratorNext e it = Inr (Some c, it1)"
  shows "previousTextPos it1 = Some c \<and> returnPreviousTextPos it1 = False"
proof (cases "returnPreviousTextPos it")
  case True
  with assms show ?thesis by (auto simp: iteratorNext_def)
next
  case False
  with assms have "nextCharacter (fuel e) e it = Inr (Some c, it1)" by (simp add: iteratorNext_def)
  from nextCharacter_delivers [OF this] False show ?thesis by simp
qed

text \<open>
  Claim C7, as the code has it.  After a \<^verbatim>\<open>next()\<close> that returned the character \<open>c\<close>,
  \<^verbatim>\<open>rewind()\<close> succeeds and only sets the flag; a second \<^verbatim>\<open>rewind()\<close> right after it
  succeeds too and changes nothing; the following \<^verbatim>\<open>next()\<close> returns \<open>c\<close> again and
  leaves the iterator as it was after the first delivery, so the call after it moves on.
  \<^verbatim>\<open>rewind()\<close> raises its error exactly when no \<^verbatim>\<open>next()\<close> has returned a character
  yet, as on a new iterator.
\<close>

theorem rewind_redelivers_once:
  "(iteratorNext e it = Inr (Some c, it1) \<longrightarrow>
      iteratorRewind it1 = Inr (it1\<lparr>returnPreviousTextPos := True\<rparr>)
      \<and> iteratorRewind (it1\<lparr>returnPreviousTextPos := True\<rparr>)
          = Inr (it1\<lparr>returnPreviousTextPos := True\<rparr>)
      \<and> iteratorNext e (it1\<lparr>returnPreviousTextPos := True\<rparr>) = Inr (Some c, it1))
   \<and> (createCharacterIterator e startPos backward endPos options = Inr it0 \<longrightarrow>
        iteratorRewind it0 = Inl (Thrown rewindMessage))
   \<and> (previousTextPos it = None \<longrightarrow> iteratorRewind it = Inl (Thrown rewindMessage))"
proof (intro conjI impI)
  assume a: "iteratorNext e it = Inr (Some c, it1)"
  note d = iteratorNext_delivers [OF a]
  show "iteratorRewind it1 = Inr (it1\<lparr>returnPreviousTextPos := True\<rparr>)"
    using d by (simp add: iteratorRewind_def)
  show "iteratorRewind (it1\<lparr>returnPreviousTextPos := True\<rparr>)
          = Inr (it1\<lparr>returnPreviousTextPos := True\<rparr>)"
    using d by (simp add: iteratorRewind_def)
  have "it1\<lparr>returnPreviousTextPos := False\<rparr> = it1" using d by simp
  then show "iteratorNext e (it1\<lparr>returnPreviousTextPos := True\<rparr>) = Inr (Some c, it1)"
    using d by (simp add: iteratorNext_def)
next
  assume "createCharacterIterator e startPos backward endPos options = Inr it0"
  then have "previousTextPos it0 = None"
    by (auto simp: createCharacterIterator_def bindE_def split: option.splits sum.splits)
  then show "iteratorRewind it0 = Inl (Thrown rewindMessage)" by (simp add: iteratorRewind_def)
next
  assume "previousTextPos it = None"
  then show "iteratorRewind it = Inl (Thrown rewindMessage)" by (simp add: iteratorRewind_def)
qed

theorem rewind_redelivers_once_witness:
  "\<exists>it0 c it1. firstIterator = Inr it0
     \<and> iteratorNext (exampleEnv doubleSpaceDoc) it0 = Inr (Some c, it1) \<and> character c = ''a''
     \<and> iteratorNext (exampleEnv doubleSpaceDoc) (it1\<lparr>returnPreviousTextPos := True\<rparr>) = Inr (Some c, it1)
     \<and> iteratorRewind it0 = Inl (Thrown rewindMessage)"
proof -
  obtain it0 where i0: "firstIterator = Inr it0"
    by (simp add: firstIterator_def createCharacterIterator_def bindE_def)
  have "\<exists>c it1. iteratorNext (exampleEnv doubleSpaceDoc) it0 = Inr (Some c, it1) \<and> character c = ''a''"
  proof -
    have "map_sum id (\<lambda>(c, it1). map_option character c)
            (bindE firstIterator (iteratorNext (exampleEnv doubleSpaceDoc))) = Inr (Some ''a'')"
      by code_simp
    then have "map_sum id (\<lambda>(c, it1). map_option character c)
            (iteratorNext (exampleEnv doubleSpaceDoc) it0) = Inr (Some ''a'')"
      unfolding i0 by (simp add: bindE_def)
    then show ?thesis
      by (cases "iteratorNext (exampleEnv doubleSpaceDoc) it0") auto
  qed
  then obtain c it1 where n: "iteratorNext (exampleEnv doubleSpaceDoc) it0 = Inr (Some c, it1)"
    and c: "character c = ''a''" by blast
  from rewind_redelivers_once [of "exampleEnv doubleSpaceDoc" it0 c it1 "DomPosition (Some [0, 0]) 0"
      False None defaultCharacterOptions it0]
  show ?thesis using i0 n c by (auto simp: firstIterator_def)
qed

text \<open>
  Two calls of \<^verbatim>\<open>rewind()\<close> in a row after the first character of \<^verbatim>\<open><div>a  b</div>\<close>:
  neither raises an error, the second leaves the iterator as the first did, and the next
  character is \<^verbatim>\<open>a\<close> again.
\<close>

theorem double_rewind_counterexample:
  "bindE firstIterator (\<lambda>it0.
   bindE (iteratorNext (exampleEnv doubleSpaceDoc) it0) (\<lambda>(c, it1).
   bindE (iteratorRewind it1) (\<lambda>it2.
   bindE (iteratorRewind it2) (\<lambda>it3.
   bindE (iteratorNext (exampleEnv doubleSpaceDoc) it3) (\<lambda>(c', it4).
     Inr (map_option character c, it3 = it2, map_option character c'))))))
   = Inr (Some ''a'', True, Some ''a'')"
  by code_simp

section \<open>Units of movement\<close>

text \<open>
  With the count 0, \<^verbatim>\<open>movePositionBy\<close> returns the position it was given for the unit
  \<^verbatim>\<open>line\<close>: no error is raised.
\<close>

theorem unsupported_unit_zero_counterexample:
  "movePositionBy (exampleEnv doubleSpaceDoc) (DomPosition (Some [0, 0]) 1) ''line'' 0
     defaultCharacterOptions defaultWordOptions
   = Inr (Some (DomPosition (Some [0, 0]) 1), 0)"
  by (simp add: movePositionBy_def)

text \<open>
  Claim C8, as the code has it.  For a unit that is neither \<^verbatim>\<open>character\<close> nor \<^verbatim>\<open>word\<close>
  and a count other than 0, \<^verbatim>\<open>movePositionBy\<close> raises its error at once, and so do
  \<^verbatim>\<open>moveStart\<close>, \<^verbatim>\<open>moveEnd\<close> and \<^verbatim>\<open>move\<close>.  With the count 0 it returns the
  position unchanged and 0 units moved.  \<^verbatim>\<open>expand\<close> treats such a unit as
  \<^verbatim>\<open>character\<close>: it moves the end by one character.
\<close>

theorem unsupported_unit:
  assumes "unit \<noteq> CHARACTER" and "unit \<noteq> WORD"
  shows "(count \<noteq> 0 \<longrightarrow>
            movePositionBy e pos unit count options wo = Inl (notImplemented unit)
          \<and> moveStart e r unit count mo = Inl (notImplemented unit)
          \<and> moveEnd e r unit count mo = Inl (notImplemented unit)
          \<and> move e r unit count mo = Inl (notImplemented unit))
       \<and> movePositionBy e pos unit 0 options wo = Inr (Some pos, 0)
       \<and> expand e r unit eo
          = bindE (moveEnd e r CHARACTER 1
                     \<lparr> moveWordOptions = expandWordOptions eo,
                       moveCharacterOptions = expandCharacterOptions eo \<rparr>)
              (\<lambda>(r', unitsMoved). Inr (r', unitsMoved \<noteq> 0))"
  using assms
  by (simp add: movePositionBy_def moveStart_def moveEnd_def move_def moveBoundary_def
      expand_def bindE_def Let_def)

theorem unsupported_unit_witness:
  "''line'' \<noteq> CHARACTER \<and> ''line'' \<noteq> WORD
   \<and> movePositionBy (exampleEnv doubleSpaceDoc) (DomPosition (Some [0, 0]) 1) ''line'' 2
        defaultCharacterOptions defaultWordOptions = Inl (notImplemented ''line'')"
proof -
  have a: "''line'' \<noteq> CHARACTER" and b: "''line'' \<noteq> WORD" by (simp_all add: CHARACTER_def WORD_def)
  from unsupported_unit [OF a b, of 2] show ?thesis using a b by simp
qed

section \<open>Character ranges\<close>

text \<open>
  Claim C9.  Whenever \<^verbatim>\<open>toCharacterRange\<close> returns, the start of the character range is
  not greater than its end: the end is the start plus the length of the text of the range.
  The witness is a range that begins in the block before the container, where the start is
  negative.
\<close>

theorem character_range_ordered:
  assumes "toCharacterRange e r containerNode options = Inr cr"
  shows "startIndex cr \<le> endIndex cr
       \<and> (\<exists>t. rangeText e r options = Inr t \<and> endIndex cr = startIndex cr + int (length t))"
  using assms
  by (auto simp: toCharacterRange_def bindE_def Let_def split: option.splits sum.splits if_splits)

theorem character_range_ordered_witness:
  "toCharacterRange (exampleEnv twoBlocksDoc)
     \<lparr> startContainer = [0, 0, 0], startOffset = 0, endContainer = [0, 1, 0], endOffset = 1 \<rparr>
     [0, 1] None = Inr (CharacterRange (- 2) 1)
   \<and> startIndex (CharacterRange (- 2) 1) \<le> endIndex (CharacterRange (- 2) 1)"
proof -
  have a: "toCharacterRange (exampleEnv twoBlocksDoc)
     \<lparr> startContainer = [0, 0, 0], startOffset = 0, endContainer = [0, 1, 0], endOffset = 1 \<rparr>
     [0, 1] None = Inr (CharacterRange (- 2) 1)"
    by code_simp
  from character_range_ordered [OF a] a show ?thesis by simp
qed


section \<open>Restoring a saved selection\<close>

text \<open>
  Claim C10.  A call of \<^verbatim>\<open>restoreSelection\<close> that returns leaves the flag
  \<^verbatim>\<open>restored\<close> set, and every later call on that saved selection returns with the
  document and the selection as it found them, whatever \<^verbatim>\<open>normalizeBoundaries\<close> does.
\<close>

theorem restore_idempotent:
  assumes "restoreSelection normalizeBoundaries w saved = Inr (w1, saved1)"
  shows "restored saved1 \<and> (\<forall>nb w'. restoreSelection nb w' saved1 = Inr (w', saved1))"
  using assms
  by (auto simp: restoreSelection_def bindE_def split: if_splits sum.splits)

theorem restore_idempotent_witness:
  "\<exists>w1 s1. restoreSelection nothingToJoin markedWorld markedSelection = Inr (w1, s1)
     \<and> items w1 = [Other, Other, Other, Other] \<and> selection w1 = [(1, 3)]
     \<and> restored s1 \<and> restoreSelection nothingToJoin w1 s1 = Inr (w1, s1)"
proof -
  have a: "restoreSelection nothingToJoin markedWorld markedSelection
     = Inr (\<lparr> items = [Other, Other, Other, Other], selection = [(1, 3)] \<rparr>,
            markedSelection\<lparr>restored := True\<rparr>)"
    by code_simp
  from restore_idempotent [OF a] a show ?thesis by simp
qed


end
